theory Spec2Isabelle
  imports Main "HOL-Library.Multiset"
begin

section \<open>Values and exceptions\<close>

text \<open>
  The handlers of \<^verbatim>\<open>radarr-mcp-server.py\<close> work on parsed JSON: dictionaries,
  lists, strings, numbers, booleans and \<^verbatim>\<open>None\<close>. A dictionary is an association
  list in insertion order, read with \<open>map_of\<close>. A \<open>char\<close> stands for one code
  point of a Python string, so the model covers strings of code points below 256.
  JSON numbers are integers; fractional numbers are outside the model.
\<close>

datatype json =
    JNull
  | JBool bool
  | JInt int
  | JStr string
  | JList "json list"
  | JObj "(string \<times> json) list"

datatype exn_class =
  Exception | TypeError | AttributeError | KeyError | IndexError | ValueError | OverflowError

text \<open>An exception is its class and the text \<^verbatim>\<open>str(e)\<close> gives.\<close>

datatype exn = Exn exn_class string

fun str_exn :: "exn \<Rightarrow> string" where
  "str_exn (Exn c m) = m"

definition ebind :: "exn + 'a \<Rightarrow> ('a \<Rightarrow> exn + 'b) \<Rightarrow> exn + 'b" where
  "ebind m f = (case m of Inl e \<Rightarrow> Inl e | Inr x \<Rightarrow> f x)"

fun emap :: "('a \<Rightarrow> exn + 'b) \<Rightarrow> 'a list \<Rightarrow> exn + 'b list" where
  "emap f [] = Inr []"
| "emap f (x # xs) =
     (case f x of Inl e \<Rightarrow> Inl e
      | Inr y \<Rightarrow> (case emap f xs of Inl e \<Rightarrow> Inl e | Inr ys \<Rightarrow> Inr (y # ys)))"

text \<open>
  A dictionary display \<^verbatim>\<open>{"k1": e1, "k2": e2}\<close> evaluates its values in order; the
  first one that raises ends the evaluation.
\<close>

fun mk_fields :: "(string \<times> (exn + json)) list \<Rightarrow> exn + (string \<times> json) list" where
  "mk_fields [] = Inr []"
| "mk_fields ((k, v) # rest) =
     (case v of Inl e \<Rightarrow> Inl e
      | Inr x \<Rightarrow> (case mk_fields rest of Inl e \<Rightarrow> Inl e | Inr kvs \<Rightarrow> Inr ((k, x) # kvs)))"

definition mk_obj :: "(string \<times> (exn + json)) list \<Rightarrow> exn + json" where
  "mk_obj fs = (case mk_fields fs of Inl e \<Rightarrow> Inl e | Inr kvs \<Rightarrow> Inr (JObj kvs))"

definition field :: "json \<Rightarrow> string \<Rightarrow> json option" where
  "field j k = (case j of JObj kvs \<Rightarrow> map_of kvs k | _ \<Rightarrow> None)"

subsection \<open>The Python operations the handlers use\<close>

fun type_name :: "json \<Rightarrow> string" where
  "type_name JNull = ''NoneType''"
| "type_name (JBool b) = ''bool''"
| "type_name (JInt i) = ''int''"
| "type_name (JStr s) = ''str''"
| "type_name (JList xs) = ''list''"
| "type_name (JObj kvs) = ''dict''"

text \<open>Truth value testing: \<^verbatim>\<open>if x\<close>, \<^verbatim>\<open>if not x\<close>, \<^verbatim>\<open>a and b\<close>.\<close>

fun truthy :: "json \<Rightarrow> bool" where
  "truthy JNull = False"
| "truthy (JBool b) = b"
| "truthy (JInt i) = (i \<noteq> 0)"
| "truthy (JStr s) = (s \<noteq> [])"
| "truthy (JList xs) = (xs \<noteq> [])"
| "truthy (JObj kvs) = (kvs \<noteq> [])"

text \<open>\<^verbatim>\<open>x.get(k, d)\<close>: only a dictionary has the method.\<close>

fun py_get :: "json \<Rightarrow> string \<Rightarrow> json \<Rightarrow> exn + json" where
  "py_get (JObj kvs) k d = Inr (case map_of kvs k of None \<Rightarrow> d | Some v \<Rightarrow> v)"
| "py_get x k d = Inl (Exn AttributeError
     ([CHR 0x27] @ type_name x @ [CHR 0x27] @ '' object has no attribute '' @ [CHR 0x27] @ ''get'' @ [CHR 0x27]))"

fun py_len :: "json \<Rightarrow> exn + nat" where
  "py_len (JStr s) = Inr (length s)"
| "py_len (JList xs) = Inr (length xs)"
| "py_len (JObj kvs) = Inr (length kvs)"
| "py_len x = Inl (Exn TypeError
     (''object of type '' @ [CHR 0x27] @ type_name x @ [CHR 0x27] @ '' has no len()''))"

definition not_subscriptable :: "json \<Rightarrow> exn" where
  "not_subscriptable x =
     Exn TypeError ([CHR 0x27] @ type_name x @ [CHR 0x27] @ '' object is not subscriptable'')"

text \<open>\<^verbatim>\<open>x[:n]\<close>: a slice of a string or a list; a dictionary cannot be sliced.\<close>

fun py_slice_to :: "json \<Rightarrow> nat \<Rightarrow> exn + json" where
  "py_slice_to (JStr s) n = Inr (JStr (take n s))"
| "py_slice_to (JList xs) n = Inr (JList (take n xs))"
| "py_slice_to (JObj kvs) n = Inl (Exn TypeError (''unhashable type: '' @ [CHR 0x27] @ ''slice'' @ [CHR 0x27]))"
| "py_slice_to x n = Inl (not_subscriptable x)"

text \<open>\<^verbatim>\<open>x[0]\<close>.\<close>

fun py_index0 :: "json \<Rightarrow> exn + json" where
  "py_index0 (JList []) = Inl (Exn IndexError ''list index out of range'')"
| "py_index0 (JList (x # xs)) = Inr x"
| "py_index0 (JStr []) = Inl (Exn IndexError ''string index out of range'')"
| "py_index0 (JStr (c # cs)) = Inr (JStr [c])"
| "py_index0 (JObj kvs) = Inl (Exn KeyError ''0'')"
| "py_index0 x = Inl (not_subscriptable x)"

text \<open>\<^verbatim>\<open>x["k"]\<close>.\<close>

fun py_item :: "json \<Rightarrow> string \<Rightarrow> exn + json" where
  "py_item (JObj kvs) k =
     (case map_of kvs k of
        None \<Rightarrow> Inl (Exn KeyError ([CHR 0x27] @ k @ [CHR 0x27]))
      | Some v \<Rightarrow> Inr v)"
| "py_item (JList xs) k = Inl (Exn TypeError ''list indices must be integers or slices, not str'')"
| "py_item (JStr s) k = Inl (Exn TypeError (''string indices must be integers, not '' @ [CHR 0x27] @ ''str'' @ [CHR 0x27]))"
| "py_item x k = Inl (not_subscriptable x)"

text \<open>\<^verbatim>\<open>x + "..."\<close>.\<close>

fun py_add_str :: "json \<Rightarrow> string \<Rightarrow> exn + json" where
  "py_add_str (JStr s) t = Inr (JStr (s @ t))"
| "py_add_str (JList xs) t = Inl (Exn TypeError ''can only concatenate list (not \"str\") to list'')"
| "py_add_str x t = Inl (Exn TypeError
     (''unsupported operand type(s) for +: '' @ [CHR 0x27] @ type_name x @ [CHR 0x27] @ '' and '' @ [CHR 0x27] @ ''str'' @ [CHR 0x27]))"

text \<open>
  Iteration (\<^verbatim>\<open>for x in v\<close>): a list gives its elements, a dictionary its keys, a
  string its characters.
\<close>

fun py_iter :: "json \<Rightarrow> exn + json list" where
  "py_iter (JList xs) = Inr xs"
| "py_iter (JObj kvs) = Inr (map (\<lambda>kv. JStr (fst kv)) kvs)"
| "py_iter (JStr s) = Inr (map (\<lambda>c. JStr [c]) s)"
| "py_iter x = Inl (Exn TypeError ([CHR 0x27] @ type_name x @ [CHR 0x27] @ '' object is not iterable''))"

text \<open>
  \<^verbatim>\<open>a == b\<close> on parsed JSON: \<^verbatim>\<open>True == 1\<close> holds, lists are compared element by
  element and dictionaries as maps.
\<close>

lemma size_map_of:
  "map_of b k = Some w \<Longrightarrow> size w < Suc (size_list (size_prod (\<lambda>x. 0) size) b)"
  by (induction b) (auto split: if_splits)

function (sequential) py_eq :: "json \<Rightarrow> json \<Rightarrow> bool"
  and py_eq_list :: "json list \<Rightarrow> json list \<Rightarrow> bool"
  and py_eq_items :: "(string \<times> json) list \<Rightarrow> (string \<times> json) list \<Rightarrow> bool" where
  "py_eq JNull JNull = True"
| "py_eq (JBool a) (JBool b) = (a = b)"
| "py_eq (JBool a) (JInt j) = (j = (if a then 1 else 0))"
| "py_eq (JInt i) (JBool b) = (i = (if b then 1 else 0))"
| "py_eq (JInt i) (JInt j) = (i = j)"
| "py_eq (JStr s) (JStr t) = (s = t)"
| "py_eq (JList xs) (JList ys) = py_eq_list xs ys"
| "py_eq (JObj a) (JObj b) = (length a = length b \<and> py_eq_items a b)"
| "py_eq x y = False"
| "py_eq_list [] [] = True"
| "py_eq_list (x # xs) (y # ys) = (py_eq x y \<and> py_eq_list xs ys)"
| "py_eq_list xs ys = False"
| "py_eq_items [] b = True"
| "py_eq_items ((k, v) # rest) b =
     ((case map_of b k of None \<Rightarrow> False | Some w \<Rightarrow> py_eq v w) \<and> py_eq_items rest b)"
  by pat_completeness auto

termination
  apply (relation "measure (\<lambda>x. case x of Inl (a, b) \<Rightarrow> size a + size b
      | Inr (Inl (xs, ys)) \<Rightarrow> size_list size xs + size_list size ys
      | Inr (Inr (a, b)) \<Rightarrow>
          size_list (size_prod (\<lambda>x. 0) size) a + size_list (size_prod (\<lambda>x. 0) size) b)")
       apply (auto dest: size_map_of)
  done

text \<open>
  \<^verbatim>\<open>a < b\<close>: numbers (and booleans) by value, strings by code point, lists by their
  first differing element; any other pair raises \<^verbatim>\<open>TypeError\<close>.
\<close>

fun str_lt :: "string \<Rightarrow> string \<Rightarrow> bool" where
  "str_lt [] [] = False"
| "str_lt [] (y # ys) = True"
| "str_lt (x # xs) [] = False"
| "str_lt (x # xs) (y # ys) = (if x = y then str_lt xs ys else (of_char x :: nat) < of_char y)"

definition lt_unsupported :: "json \<Rightarrow> json \<Rightarrow> exn" where
  "lt_unsupported a b = Exn TypeError
     ([CHR 0x27] @ ''<'' @ [CHR 0x27] @ '' not supported between instances of '' @ [CHR 0x27]
        @ type_name a @ [CHR 0x27] @ '' and '' @ [CHR 0x27] @ type_name b @ [CHR 0x27])"

fun py_lt :: "json \<Rightarrow> json \<Rightarrow> exn + bool"
  and py_lt_list :: "json list \<Rightarrow> json list \<Rightarrow> exn + bool" where
  "py_lt (JInt i) (JInt j) = Inr (i < j)"
| "py_lt (JInt i) (JBool b) = Inr (i < (if b then 1 else 0))"
| "py_lt (JBool a) (JInt j) = Inr ((if a then 1 else 0) < j)"
| "py_lt (JBool a) (JBool b) = Inr (\<not> a \<and> b)"
| "py_lt (JStr s) (JStr t) = Inr (str_lt s t)"
| "py_lt (JList xs) (JList ys) = py_lt_list xs ys"
| "py_lt x y = Inl (lt_unsupported x y)"
| "py_lt_list [] [] = Inr False"
| "py_lt_list [] (y # ys) = Inr True"
| "py_lt_list (x # xs) [] = Inr False"
| "py_lt_list (x # xs) (y # ys) = (if py_eq x y then py_lt_list xs ys else py_lt x y)"

text \<open>
  \<^verbatim>\<open>xs.sort(key=f, reverse=True)\<close>. The keys are computed first, in order. The sort
  compares keys with \<^verbatim>\<open><\<close> only, is stable, and fails when a comparison fails;
  with \<^verbatim>\<open>reverse=True\<close> the list is reversed, sorted ascending and reversed again,
  which keeps the stability. The model is the stable insertion sort; which pairs the merge
  strategy of the interpreter compares is not modelled.
\<close>

fun insort_lt :: "json \<times> 'a \<Rightarrow> (json \<times> 'a) list \<Rightarrow> exn + (json \<times> 'a) list" where
  "insort_lt x [] = Inr [x]"
| "insort_lt x (y # ys) =
     (case py_lt (fst x) (fst y) of
        Inl e \<Rightarrow> Inl e
      | Inr b \<Rightarrow>
          if b then Inr (x # y # ys)
          else (case insort_lt x ys of Inl e \<Rightarrow> Inl e | Inr zs \<Rightarrow> Inr (y # zs)))"

fun sort_asc :: "(json \<times> 'a) list \<Rightarrow> (json \<times> 'a) list \<Rightarrow> exn + (json \<times> 'a) list" where
  "sort_asc acc [] = Inr acc"
| "sort_asc acc (x # xs) =
     (case insort_lt x acc of Inl e \<Rightarrow> Inl e | Inr acc' \<Rightarrow> sort_asc acc' xs)"

definition with_key :: "(json \<Rightarrow> exn + json) \<Rightarrow> json \<Rightarrow> exn + json \<times> json" where
  "with_key key x = (case key x of Inl e \<Rightarrow> Inl e | Inr k \<Rightarrow> Inr (k, x))"

fun py_sort_reverse :: "(json \<Rightarrow> exn + json) \<Rightarrow> json \<Rightarrow> exn + json" where
  "py_sort_reverse key (JList xs) =
     ebind (emap (with_key key) xs) (\<lambda>kxs.
     ebind (sort_asc [] (rev kxs)) (\<lambda>sorted.
     Inr (JList (rev (map snd sorted)))))"
| "py_sort_reverse key x = Inl (Exn AttributeError
     ([CHR 0x27] @ type_name x @ [CHR 0x27] @ '' object has no attribute '' @ [CHR 0x27] @ ''sort'' @ [CHR 0x27]))"

text \<open>A comprehension with a condition: \<^verbatim>\<open>[m for m in xs if p(m)]\<close>.\<close>

fun efilter :: "('a \<Rightarrow> exn + bool) \<Rightarrow> 'a list \<Rightarrow> exn + 'a list" where
  "efilter p [] = Inr []"
| "efilter p (x # xs) =
     (case p x of Inl e \<Rightarrow> Inl e
      | Inr b \<Rightarrow> (case efilter p xs of Inl e \<Rightarrow> Inl e
                  | Inr ys \<Rightarrow> Inr (if b then x # ys else ys)))"

subsection \<open>Strings\<close>

definition digit_char :: "nat \<Rightarrow> char" where
  "digit_char n = ''0123456789'' ! n"

fun str_nat :: "nat \<Rightarrow> string" where
  "str_nat n = (if n < 10 then [digit_char n] else str_nat (n div 10) @ [digit_char (n mod 10)])"

declare str_nat.simps [simp del]

text \<open>\<^verbatim>\<open>str(i)\<close>, as an f-string formats an integer.\<close>

definition str_int :: "int \<Rightarrow> string" where
  "str_int i = (if i < 0 then CHR ''-'' # str_nat (nat (- i)) else str_nat (nat i))"

text \<open>\<^verbatim>\<open>s.upper()\<close> on the ASCII letters.\<close>

definition upper_char :: "char \<Rightarrow> char" where
  "upper_char c =
     (case List.find (\<lambda>p. fst p = c)
        (zip ''abcdefghijklmnopqrstuvwxyz'' ''ABCDEFGHIJKLMNOPQRSTUVWXYZ'') of
        None \<Rightarrow> c | Some p \<Rightarrow> snd p)"

definition upper :: "string \<Rightarrow> string" where
  "upper s = map upper_char s"

text \<open>\<^verbatim>\<open>s.lstrip('/')\<close>.\<close>

definition lstrip_slash :: "string \<Rightarrow> string" where
  "lstrip_slash s = dropWhile (\<lambda>c. c = CHR ''/'') s"

subsection \<open>Dates\<close>

text \<open>
  \<^verbatim>\<open>datetime.strptime(s, "%Y-%m-%d")\<close>, \<^verbatim>\<open>+ timedelta(days=30)\<close> and
  \<^verbatim>\<open>strftime("%Y-%m-%d")\<close> of the standard library. A date is year, month and day.
  The directives match as the library's regular expressions do: \<^verbatim>\<open>%Y\<close> is four
  digits, \<^verbatim>\<open>%m\<close> is \<^verbatim>\<open>1[0-2]|0[1-9]|[1-9]\<close>, and \<^verbatim>\<open>%d\<close> is
  \<^verbatim>\<open>3[0-1]|[1-2]\d|0[1-9]|[1-9]| [1-9]\<close>, each alternative tried in this order.
\<close>

type_synonym date = "nat \<times> nat \<times> nat"

definition is_digit :: "char \<Rightarrow> bool" where
  "is_digit c = (c \<in> set ''0123456789'')"

definition digit_val :: "char \<Rightarrow> nat" where
  "digit_val c =
     (case map_of (zip ''0123456789'' [0, 1, 2, 3, 4, 5, 6, 7, 8, 9]) c of
        None \<Rightarrow> 0 | Some n \<Rightarrow> n)"

definition is_leap :: "nat \<Rightarrow> bool" where
  "is_leap y = (y mod 4 = 0 \<and> (y mod 100 \<noteq> 0 \<or> y mod 400 = 0))"

definition days_in_month :: "nat \<Rightarrow> nat \<Rightarrow> nat" where
  "days_in_month y m =
     (if m = 2 then (if is_leap y then 29 else 28)
      else if m = 4 \<or> m = 6 \<or> m = 9 \<or> m = 11 then 30 else 31)"

definition match_month :: "string \<Rightarrow> (nat \<times> string) option" where
  "match_month s =
     (case s of
        a # b # c # r \<Rightarrow>
          if a = CHR ''1'' \<and> b \<in> set ''012'' \<and> c = CHR ''-'' then Some (10 + digit_val b, r)
          else if a = CHR ''0'' \<and> b \<in> set ''123456789'' \<and> c = CHR ''-'' then Some (digit_val b, r)
          else if a \<in> set ''123456789'' \<and> b = CHR ''-'' then Some (digit_val a, c # r)
          else None
      | [a, b] \<Rightarrow> if a \<in> set ''123456789'' \<and> b = CHR ''-'' then Some (digit_val a, []) else None
      | _ \<Rightarrow> None)"

definition match_day :: "string \<Rightarrow> (nat \<times> string) option" where
  "match_day s =
     (case s of
        a # b # r \<Rightarrow>
          if a = CHR ''3'' \<and> b \<in> set ''01'' then Some (30 + digit_val b, r)
          else if a \<in> set ''12'' \<and> is_digit b then Some (10 * digit_val a + digit_val b, r)
          else if a = CHR ''0'' \<and> b \<in> set ''123456789'' then Some (digit_val b, r)
          else if a \<in> set ''123456789'' then Some (digit_val a, b # r)
          else if a = CHR '' '' \<and> b \<in> set ''123456789'' then Some (digit_val b, r)
          else None
      | [a] \<Rightarrow> if a \<in> set ''123456789'' then Some (digit_val a, []) else None
      | [] \<Rightarrow> None)"

definition no_match :: "string \<Rightarrow> exn" where
  "no_match s = Exn ValueError (''time data '' @ [CHR 0x27] @ s @ [CHR 0x27]
     @ '' does not match format '' @ [CHR 0x27] @ ''%Y-%m-%d'' @ [CHR 0x27])"

definition strptime_ymd :: "string \<Rightarrow> exn + date" where
  "strptime_ymd s =
     (case s of
        y1 # y2 # y3 # y4 # dash # rest \<Rightarrow>
          if is_digit y1 \<and> is_digit y2 \<and> is_digit y3 \<and> is_digit y4 \<and> dash = CHR ''-'' then
            (case match_month rest of
               None \<Rightarrow> Inl (no_match s)
             | Some (m, rest') \<Rightarrow>
                 (case match_day rest' of
                    None \<Rightarrow> Inl (no_match s)
                  | Some (d, left) \<Rightarrow>
                      let y = 1000 * digit_val y1 + 100 * digit_val y2 + 10 * digit_val y3
                                + digit_val y4 in
                      if left \<noteq> [] then Inl (Exn ValueError (''unconverted data remains: '' @ left))
                      else if y = 0 then Inl (Exn ValueError ''year 0 is out of range'')
                      else if days_in_month y m < d
                        then Inl (Exn ValueError ''day is out of range for month'')
                      else Inr (y, m, d)))
          else Inl (no_match s)
      | _ \<Rightarrow> Inl (no_match s))"

fun next_day :: "date \<Rightarrow> date" where
  "next_day (y, m, d) =
     (if d < days_in_month y m then (y, m, d + 1)
      else if m < 12 then (y, m + 1, 1)
      else (y + 1, 1, 1))"

fun days_later :: "nat \<Rightarrow> date \<Rightarrow> date" where
  "days_later 0 dt = dt"
| "days_later (Suc n) dt = days_later n (next_day dt)"

text \<open>The last date is 9999-12-31; a sum beyond it raises \<^verbatim>\<open>OverflowError\<close>.\<close>

definition add_days :: "date \<Rightarrow> nat \<Rightarrow> exn + date" where
  "add_days dt n =
     (if 9999 < fst (days_later n dt) then Inl (Exn OverflowError ''date value out of range'')
      else Inr (days_later n dt))"

definition zero_pad :: "nat \<Rightarrow> string \<Rightarrow> string" where
  "zero_pad w s = replicate (w - length s) (CHR ''0'') @ s"

text \<open>\<^verbatim>\<open>strftime("%Y-%m-%d")\<close>, the year written with four digits.\<close>

fun strftime_ymd :: "date \<Rightarrow> string" where
  "strftime_ymd (y, m, d) =
     zero_pad 4 (str_nat y) @ ''-'' @ zero_pad 2 (str_nat m) @ ''-'' @ zero_pad 2 (str_nat d)"

subsection \<open>Serialisation\<close>

text \<open>
  \<^verbatim>\<open>json.dumps(x)\<close> and \<^verbatim>\<open>json.dumps(x, indent=2)\<close> of the standard library: with an
  indent every item is on its own line and the item separator is a comma, without one it
  is a comma and a space; every character outside the printable ASCII range is escaped.
\<close>

definition hex_digit :: "nat \<Rightarrow> char" where
  "hex_digit n = ''0123456789abcdef'' ! n"

definition escape_char :: "char \<Rightarrow> string" where
  "escape_char c =
     (if c = CHR 0x22 then [CHR 0x5C, CHR 0x22]
      else if c = CHR 0x5C then [CHR 0x5C, CHR 0x5C]
      else if c = CHR 0x0A then [CHR 0x5C, CHR ''n'']
      else if c = CHR 0x0D then [CHR 0x5C, CHR ''r'']
      else if c = CHR 0x09 then [CHR 0x5C, CHR ''t'']
      else if c = CHR 0x08 then [CHR 0x5C, CHR ''b'']
      else if c = CHR 0x0C then [CHR 0x5C, CHR ''f'']
      else if 32 \<le> (of_char c :: nat) \<and> (of_char c :: nat) \<le> 126 then [c]
      else [CHR 0x5C, CHR ''u'', CHR ''0'', CHR ''0'',
            hex_digit ((of_char c :: nat) div 16), hex_digit ((of_char c :: nat) mod 16)])"

definition quote_str :: "string \<Rightarrow> string" where
  "quote_str s = [CHR 0x22] @ concat (map escape_char s) @ [CHR 0x22]"

definition newline_indent :: "nat option \<Rightarrow> nat \<Rightarrow> string" where
  "newline_indent ind lvl =
     (case ind of None \<Rightarrow> [] | Some n \<Rightarrow> CHR 0x0A # replicate (n * lvl) (CHR '' ''))"

definition item_sep :: "nat option \<Rightarrow> nat \<Rightarrow> string" where
  "item_sep ind lvl = (case ind of None \<Rightarrow> '', '' | Some n \<Rightarrow> '','' @ newline_indent ind lvl)"

fun join :: "string \<Rightarrow> string list \<Rightarrow> string" where
  "join sep [] = []"
| "join sep [x] = x"
| "join sep (x # y # ys) = x @ sep @ join sep (y # ys)"

fun dumps_at :: "nat option \<Rightarrow> nat \<Rightarrow> json \<Rightarrow> string" where
  "dumps_at ind lvl JNull = ''null''"
| "dumps_at ind lvl (JBool b) = (if b then ''true'' else ''false'')"
| "dumps_at ind lvl (JInt i) = str_int i"
| "dumps_at ind lvl (JStr s) = quote_str s"
| "dumps_at ind lvl (JList xs) =
     (if xs = [] then ''[]''
      else ''['' @ newline_indent ind (lvl + 1)
           @ join (item_sep ind (lvl + 1)) (map (dumps_at ind (lvl + 1)) xs)
           @ newline_indent ind lvl @ '']'')"
| "dumps_at ind lvl (JObj kvs) =
     (if kvs = [] then ''{}''
      else ''{'' @ newline_indent ind (lvl + 1)
           @ join (item_sep ind (lvl + 1))
               (map (\<lambda>kv. quote_str (fst kv) @ '': '' @ dumps_at ind (lvl + 1) (snd kv)) kvs)
           @ newline_indent ind lvl @ ''}'')"

definition json_dumps :: "nat option \<Rightarrow> json \<Rightarrow> string" where
  "json_dumps ind x = dumps_at ind 0 x"

section \<open>The gateway client\<close>

text \<open>
  What goes over the wire: the HTTP verb, the URL and the JSON body (\<^verbatim>\<open>session.get\<close>
  and \<^verbatim>\<open>session.delete\<close> send none). The two headers are the same on every call
  and are left out.
\<close>

record request =
  verb :: string
  url :: string
  body :: "json option"

text \<open>
  What one call to the upstream service ends in: \<open>ClientError m\<close> is an
  \<^verbatim>\<open>aiohttp.ClientError\<close> \<open>e\<close> with \<^verbatim>\<open>str(e)\<close> \<open>= m\<close> (no connection, or a status
  that \<^verbatim>\<open>raise_for_status\<close> rejects), \<open>OtherError\<close> is any other exception raised
  under the \<^verbatim>\<open>try\<close>, and \<open>Response s j\<close> is a response of status \<open>s\<close> that
  \<^verbatim>\<open>raise_for_status\<close> accepts and whose body parses to \<open>j\<close>.
\<close>

datatype outcome = ClientError string | OtherError exn | Response int json

text \<open>
  The environment of the server: the configured base URL, the upstream service (its answer
  may depend on the requests it has received before), and the clock reading
  \<^verbatim>\<open>datetime.now()\<close> as year, month and day.
\<close>

record env =
  radarr_url :: string
  serve :: "request list \<Rightarrow> request \<Rightarrow> outcome"
  now_ymd :: "nat \<times> nat \<times> nat"

type_synonym trace = "(request \<times> outcome) list"

type_synonym 'a io = "trace \<Rightarrow> (exn + 'a) \<times> trace"

definition io_bind :: "'a io \<Rightarrow> ('a \<Rightarrow> 'b io) \<Rightarrow> 'b io" where
  "io_bind m f tr = (case m tr of (Inl e, tr') \<Rightarrow> (Inl e, tr') | (Inr x, tr') \<Rightarrow> f x tr')"

definition io_lift :: "exn + 'a \<Rightarrow> 'a io" where
  "io_lift r tr = (r, tr)"

text \<open>One HTTP exchange: the request is sent, and recorded with what it ended in.\<close>

definition send :: "env \<Rightarrow> request \<Rightarrow> trace \<Rightarrow> outcome \<times> trace" where
  "send ev rq tr = (let out = serve ev (map fst tr) rq in (out, tr @ [(rq, out)]))"

definition client_failure :: "string \<Rightarrow> exn" where
  "client_failure m = Exn Exception (''Failed to communicate with Radarr: '' @ m)"

text \<open>The exception \<^verbatim>\<open>make_radarr_request\<close> raises when a call ends in \<open>out\<close>.\<close>

fun raised :: "outcome \<Rightarrow> exn option" where
  "raised (ClientError m) = Some (client_failure m)"
| "raised (OtherError e) = Some e"
| "raised (Response s j) = None"

definition make_radarr_request :: "env \<Rightarrow> string \<Rightarrow> string \<Rightarrow> json option \<Rightarrow> json io" where
  "make_radarr_request ev endpoint method data tr =
     (let u = radarr_url ev @ ''/api/v3/'' @ lstrip_slash endpoint in
      if upper method = ''GET'' then
        (case send ev \<lparr>verb = ''GET'', url = u, body = None\<rparr> tr of
           (ClientError m, tr') \<Rightarrow> (Inl (client_failure m), tr')
         | (OtherError e, tr') \<Rightarrow> (Inl e, tr')
         | (Response s j, tr') \<Rightarrow> (Inr j, tr'))
      else if upper method = ''POST'' then
        (case send ev \<lparr>verb = ''POST'', url = u, body = data\<rparr> tr of
           (ClientError m, tr') \<Rightarrow> (Inl (client_failure m), tr')
         | (OtherError e, tr') \<Rightarrow> (Inl e, tr')
         | (Response s j, tr') \<Rightarrow> (Inr j, tr'))
      else if upper method = ''PUT'' then
        (case send ev \<lparr>verb = ''PUT'', url = u, body = data\<rparr> tr of
           (ClientError m, tr') \<Rightarrow> (Inl (client_failure m), tr')
         | (OtherError e, tr') \<Rightarrow> (Inl e, tr')
         | (Response s j, tr') \<Rightarrow> (Inr j, tr'))
      else if upper method = ''DELETE'' then
        (case send ev \<lparr>verb = ''DELETE'', url = u, body = None\<rparr> tr of
           (ClientError m, tr') \<Rightarrow> (Inl (client_failure m), tr')
         | (OtherError e, tr') \<Rightarrow> (Inl e, tr')
         | (Response s j, tr') \<Rightarrow> (Inr (JObj [(''success'', JBool True), (''status'', JInt s)]), tr'))
      else (Inr JNull, tr))"

section \<open>The tools\<close>

text \<open>
  Every tool is \<^verbatim>\<open>try: ... except Exception as e: return {"error": str(e)}\<close>. A tool
  starts with no request sent and returns its result and the exchanges it made.
\<close>

definition error_result :: "string \<Rightarrow> json" where
  "error_result m = JObj [(''error'', JStr m)]"

definition handle :: "json io \<Rightarrow> json \<times> trace" where
  "handle m = (case m [] of (Inl e, tr) \<Rightarrow> (error_result (str_exn e), tr) | (Inr r, tr) \<Rightarrow> (r, tr))"

subsection \<open>Shared expressions\<close>

text \<open>
  \<^verbatim>\<open>m.get("overview", "")[:n] + "..." if len(m.get("overview", "")) > n else m.get("overview", "")\<close>:
  the condition is evaluated first.
\<close>

definition overview_cut :: "nat \<Rightarrow> json \<Rightarrow> exn + json" where
  "overview_cut n m =
     ebind (py_get m ''overview'' (JStr [])) (\<lambda>ov.
     ebind (py_len ov) (\<lambda>l.
       if n < l then
         ebind (py_get m ''overview'' (JStr [])) (\<lambda>ov'.
         ebind (py_slice_to ov' n) (\<lambda>h. py_add_str h ''...''))
       else py_get m ''overview'' (JStr [])))"

text \<open>\<^verbatim>\<open>x.get(k, {}).get("name")\<close>\<close>

definition name_of :: "json \<Rightarrow> string \<Rightarrow> exn + json" where
  "name_of x k = ebind (py_get x k (JObj [])) (\<lambda>q. py_get q ''name'' JNull)"

text \<open>\<^verbatim>\<open>x.get("quality", {}).get("quality", {}).get(k, d)\<close>\<close>

definition quality_get :: "json \<Rightarrow> string \<Rightarrow> json \<Rightarrow> exn + json" where
  "quality_get x k d =
     ebind (py_get x ''quality'' (JObj [])) (\<lambda>q.
     ebind (py_get q ''quality'' (JObj [])) (\<lambda>q'. py_get q' k d))"

text \<open>\<^verbatim>\<open>[f(g) for g in x.get(k, [])]\<close>\<close>

definition each_of :: "json \<Rightarrow> string \<Rightarrow> (json \<Rightarrow> exn + json) \<Rightarrow> exn + json" where
  "each_of x k f =
     ebind (py_get x k (JList [])) (\<lambda>gs.
     ebind (py_iter gs) (\<lambda>xs.
     ebind (emap f xs) (\<lambda>ys. Inr (JList ys))))"

text \<open>\<^verbatim>\<open>[f(x) for x in v]\<close>, and the loops that append \<^verbatim>\<open>f(x)\<close> to a list.\<close>

definition for_each :: "json \<Rightarrow> (json \<Rightarrow> exn + json) \<Rightarrow> exn + json list" where
  "for_each v f = ebind (py_iter v) (\<lambda>xs. emap f xs)"

definition count_of :: "json list \<Rightarrow> json" where
  "count_of xs = JInt (int (length xs))"

subsection \<open>search_movies\<close>

definition search_movie_entry :: "json \<Rightarrow> exn + json" where
  "search_movie_entry movie = mk_obj
     [(''title'', py_get movie ''title'' (JStr ''Unknown'')),
      (''year'', py_get movie ''year'' JNull),
      (''overview'', overview_cut 200 movie),
      (''tmdb_id'', py_get movie ''tmdbId'' JNull),
      (''imdb_id'', py_get movie ''imdbId'' JNull),
      (''runtime'', py_get movie ''runtime'' JNull),
      (''status'', py_get movie ''status'' JNull),
      (''poster'',
         ebind (py_get movie ''images'' JNull) (\<lambda>c.
           if truthy c then
             ebind (py_get movie ''images'' (JList [JObj []])) (\<lambda>imgs.
             ebind (py_index0 imgs) (\<lambda>img. py_get img ''url'' JNull))
           else Inr JNull)),
      (''genres'', each_of movie ''genres'' (\<lambda>g. py_get g ''name'' JNull)),
      (''ratings'', py_get movie ''ratings'' (JObj []))]"

definition search_movies_result :: "json \<Rightarrow> exn + json" where
  "search_movies_result results =
     ebind (py_slice_to results 10) (\<lambda>top.
     ebind (for_each top search_movie_entry) (\<lambda>processed_results.
     Inr (JObj [(''success'', JBool True),
                (''results_count'', count_of processed_results),
                (''movies'', JList processed_results)])))"

text \<open>\<^verbatim>\<open>f"{query} {year}" if year else query\<close>: the year 0 counts as no year.\<close>

definition search_term :: "string \<Rightarrow> int option \<Rightarrow> string" where
  "search_term query year =
     (case year of
        None \<Rightarrow> query
      | Some y \<Rightarrow> if y \<noteq> 0 then query @ '' '' @ str_int y else query)"

definition search_movies_body :: "env \<Rightarrow> string \<Rightarrow> int option \<Rightarrow> json io" where
  "search_movies_body ev query year =
     io_bind (make_radarr_request ev (''movie/lookup?term='' @ search_term query year) ''GET'' None)
       (\<lambda>results. io_lift (search_movies_result results))"

definition search_movies :: "env \<Rightarrow> string \<Rightarrow> int option \<Rightarrow> json \<times> trace" where
  "search_movies ev query year = handle (search_movies_body ev query year)"

subsection \<open>add_movie\<close>

definition default_quality_profile :: "json \<Rightarrow> exn + json" where
  "default_quality_profile profiles =
     (if truthy profiles then ebind (py_index0 profiles) (\<lambda>p. py_item p ''id'') else Inr (JInt 1))"

definition default_root_folder :: "json \<Rightarrow> exn + json" where
  "default_root_folder root_folders =
     (if truthy root_folders then ebind (py_index0 root_folders) (\<lambda>p. py_item p ''path'')
      else Inr (JStr ''/movies''))"

definition movie_data :: "json \<Rightarrow> json \<Rightarrow> json \<Rightarrow> bool \<Rightarrow> bool \<Rightarrow> exn + json" where
  "movie_data movie_lookup quality_profile_id root_folder_path monitored search_on_add = mk_obj
     [(''title'', py_get movie_lookup ''title'' JNull),
      (''year'', py_get movie_lookup ''year'' JNull),
      (''tmdbId'', py_get movie_lookup ''tmdbId'' JNull),
      (''imdbId'', py_get movie_lookup ''imdbId'' JNull),
      (''titleSlug'', py_get movie_lookup ''titleSlug'' JNull),
      (''images'', py_get movie_lookup ''images'' (JList [])),
      (''runtime'', py_get movie_lookup ''runtime'' JNull),
      (''overview'', py_get movie_lookup ''overview'' JNull),
      (''genres'', py_get movie_lookup ''genres'' (JList [])),
      (''ratings'', py_get movie_lookup ''ratings'' (JObj [])),
      (''qualityProfileId'', Inr quality_profile_id),
      (''rootFolderPath'', Inr root_folder_path),
      (''monitored'', Inr (JBool monitored)),
      (''addOptions'', Inr (JObj [(''searchForMovie'', JBool search_on_add)]))]"

definition added_movie :: "json \<Rightarrow> exn + json" where
  "added_movie result = mk_obj
     [(''success'', Inr (JBool True)),
      (''movie'', mk_obj
         [(''id'', py_get result ''id'' JNull),
          (''title'', py_get result ''title'' JNull),
          (''year'', py_get result ''year'' JNull),
          (''status'', py_get result ''status'' JNull),
          (''monitored'', py_get result ''monitored'' JNull),
          (''quality_profile'', name_of result ''qualityProfile''),
          (''root_folder'', py_get result ''rootFolderPath'' JNull)])]"

text \<open>The two blocks under \<^verbatim>\<open># Get defaults if not provided\<close>.\<close>

definition choose_quality_profile :: "env \<Rightarrow> int option \<Rightarrow> json io" where
  "choose_quality_profile ev quality_profile_id =
     (case quality_profile_id of
        None \<Rightarrow>
          io_bind (make_radarr_request ev ''qualityprofile'' ''GET'' None)
            (\<lambda>profiles. io_lift (default_quality_profile profiles))
      | Some q \<Rightarrow> io_lift (Inr (JInt q)))"

definition choose_root_folder :: "env \<Rightarrow> string option \<Rightarrow> json io" where
  "choose_root_folder ev root_folder_path =
     (case root_folder_path of
        None \<Rightarrow>
          io_bind (make_radarr_request ev ''rootfolder'' ''GET'' None)
            (\<lambda>root_folders. io_lift (default_root_folder root_folders))
      | Some p \<Rightarrow> io_lift (Inr (JStr p)))"

text \<open>The movie data are prepared, posted, and the answer reshaped.\<close>

definition create_movie :: "env \<Rightarrow> json \<Rightarrow> json \<Rightarrow> json \<Rightarrow> bool \<Rightarrow> bool \<Rightarrow> json io" where
  "create_movie ev movie_lookup quality_profile_id root_folder_path monitored search_on_add =
     io_bind
       (io_lift (movie_data movie_lookup quality_profile_id root_folder_path monitored
          search_on_add))
       (\<lambda>data.
     io_bind (make_radarr_request ev ''movie'' ''POST'' (Some data))
       (\<lambda>result. io_lift (added_movie result)))"

definition add_movie_body ::
  "env \<Rightarrow> string \<Rightarrow> int option \<Rightarrow> string option \<Rightarrow> bool \<Rightarrow> bool \<Rightarrow> json io" where
  "add_movie_body ev movie_id quality_profile_id root_folder_path monitored search_on_add =
     io_bind (make_radarr_request ev (''movie/lookup/tmdb?tmdbId='' @ movie_id) ''GET'' None)
       (\<lambda>movie_lookup.
     if \<not> truthy movie_lookup then
       io_lift (Inr (error_result (''Movie with TMDB ID '' @ movie_id @ '' not found'')))
     else
     io_bind (choose_quality_profile ev quality_profile_id) (\<lambda>quality_profile_id'.
     io_bind (choose_root_folder ev root_folder_path) (\<lambda>root_folder_path'.
     create_movie ev movie_lookup quality_profile_id' root_folder_path' monitored
       search_on_add)))"

definition add_movie ::
  "env \<Rightarrow> string \<Rightarrow> int option \<Rightarrow> string option \<Rightarrow> bool \<Rightarrow> bool \<Rightarrow> json \<times> trace" where
  "add_movie ev movie_id quality_profile_id root_folder_path monitored search_on_add =
     handle (add_movie_body ev movie_id quality_profile_id root_folder_path monitored
       search_on_add)"

subsection \<open>get_movies\<close>

text \<open>\<^verbatim>\<open>[m for m in movies if m.get(k) == v]\<close>\<close>

definition keep_equal :: "string \<Rightarrow> json \<Rightarrow> json \<Rightarrow> exn + json" where
  "keep_equal k v movies =
     ebind (py_iter movies) (\<lambda>ms.
     ebind (efilter (\<lambda>m. ebind (py_get m k JNull) (\<lambda>x. Inr (py_eq x v))) ms) (\<lambda>kept.
     Inr (JList kept)))"

text \<open>
  The three filters: \<^verbatim>\<open>if monitored is not None\<close>, \<^verbatim>\<open>if status\<close> and
  \<^verbatim>\<open>if quality_profile_id\<close>.
\<close>

definition apply_filters :: "bool option \<Rightarrow> string option \<Rightarrow> int option \<Rightarrow> json \<Rightarrow> exn + json" where
  "apply_filters monitored status quality_profile_id movies =
     ebind (case monitored of
              None \<Rightarrow> Inr movies
            | Some b \<Rightarrow> keep_equal ''monitored'' (JBool b) movies) (\<lambda>movies1.
     ebind (case status of
              None \<Rightarrow> Inr movies1
            | Some st \<Rightarrow> if st \<noteq> [] then keep_equal ''status'' (JStr st) movies1
                         else Inr movies1) (\<lambda>movies2.
     (case quality_profile_id of
        None \<Rightarrow> Inr movies2
      | Some q \<Rightarrow> if q \<noteq> 0 then keep_equal ''qualityProfileId'' (JInt q) movies2
                  else Inr movies2)))"

definition library_movie_entry :: "json \<Rightarrow> exn + json" where
  "library_movie_entry movie =
     ebind (py_get movie ''movieFile'' (JObj [])) (\<lambda>movie_file. mk_obj
       [(''id'', py_get movie ''id'' JNull),
        (''title'', py_get movie ''title'' JNull),
        (''year'', py_get movie ''year'' JNull),
        (''status'', py_get movie ''status'' JNull),
        (''monitored'', py_get movie ''monitored'' JNull),
        (''has_file'', py_get movie ''hasFile'' (JBool False)),
        (''quality_profile'', name_of movie ''qualityProfile''),
        (''size_on_disk'', py_get movie ''sizeOnDisk'' (JInt 0)),
        (''overview'', overview_cut 100 movie),
        (''file_info'',
           if truthy movie_file then mk_obj
             [(''relative_path'', py_get movie_file ''relativePath'' JNull),
              (''size'', py_get movie_file ''size'' JNull),
              (''quality'', quality_get movie_file ''name'' JNull)]
           else Inr JNull)])"

definition get_movies_result :: "bool option \<Rightarrow> string option \<Rightarrow> int option \<Rightarrow> json \<Rightarrow> exn + json" where
  "get_movies_result monitored status quality_profile_id movies =
     ebind (apply_filters monitored status quality_profile_id movies) (\<lambda>movies'.
     ebind (for_each movies' library_movie_entry) (\<lambda>processed_movies.
     Inr (JObj [(''success'', JBool True),
                (''total_count'', count_of processed_movies),
                (''movies'', JList processed_movies)])))"

definition get_movies_body :: "env \<Rightarrow> bool option \<Rightarrow> string option \<Rightarrow> int option \<Rightarrow> json io" where
  "get_movies_body ev monitored status quality_profile_id =
     io_bind (make_radarr_request ev ''movie'' ''GET'' None)
       (\<lambda>movies. io_lift (get_movies_result monitored status quality_profile_id movies))"

definition get_movies ::
  "env \<Rightarrow> bool option \<Rightarrow> string option \<Rightarrow> int option \<Rightarrow> json \<times> trace" where
  "get_movies ev monitored status quality_profile_id =
     handle (get_movies_body ev monitored status quality_profile_id)"

subsection \<open>get_movie_details\<close>

text \<open>\<^verbatim>\<open>d[k] = v\<close> on a dictionary: an existing key keeps its place, a new one is added last.\<close>

fun set_item :: "json \<Rightarrow> string \<Rightarrow> json \<Rightarrow> exn + json" where
  "set_item (JObj kvs) k v =
     Inr (JObj (if k \<in> set (map fst kvs)
                then map (\<lambda>kv. if fst kv = k then (k, v) else kv) kvs
                else kvs @ [(k, v)]))"
| "set_item x k v = Inl (Exn TypeError
     ([CHR 0x27] @ type_name x @ [CHR 0x27] @ '' object does not support item assignment''))"

definition movie_details_entry :: "json \<Rightarrow> exn + json" where
  "movie_details_entry movie = mk_obj
     [(''id'', py_get movie ''id'' JNull),
      (''title'', py_get movie ''title'' JNull),
      (''year'', py_get movie ''year'' JNull),
      (''overview'', py_get movie ''overview'' JNull),
      (''status'', py_get movie ''status'' JNull),
      (''monitored'', py_get movie ''monitored'' JNull),
      (''has_file'', py_get movie ''hasFile'' JNull),
      (''runtime'', py_get movie ''runtime'' JNull),
      (''genres'', each_of movie ''genres'' (\<lambda>g. py_get g ''name'' JNull)),
      (''ratings'', py_get movie ''ratings'' (JObj [])),
      (''quality_profile'', py_get movie ''qualityProfile'' (JObj [])),
      (''root_folder_path'', py_get movie ''rootFolderPath'' JNull),
      (''size_on_disk'', py_get movie ''sizeOnDisk'' JNull),
      (''tmdb_id'', py_get movie ''tmdbId'' JNull),
      (''imdb_id'', py_get movie ''imdbId'' JNull)]"

definition with_file_details :: "bool \<Rightarrow> json \<Rightarrow> json \<Rightarrow> exn + json" where
  "with_file_details include_files movie result =
     (if include_files then
        ebind (py_get movie ''movieFile'' JNull) (\<lambda>c.
          if truthy c then
            ebind (py_item movie ''movieFile'') (\<lambda>movie_file.
            ebind (mk_obj
              [(''id'', py_get movie_file ''id'' JNull),
               (''relative_path'', py_get movie_file ''relativePath'' JNull),
               (''size'', py_get movie_file ''size'' JNull),
               (''date_added'', py_get movie_file ''dateAdded'' JNull),
               (''quality'', py_get movie_file ''quality'' (JObj [])),
               (''media_info'', py_get movie_file ''mediaInfo'' (JObj []))]) (\<lambda>details.
            set_item result ''file_details'' details))
          else Inr result)
      else Inr result)"

definition history_entry :: "json \<Rightarrow> exn + json" where
  "history_entry h = mk_obj
     [(''event_type'', py_get h ''eventType'' JNull),
      (''date'', py_get h ''date'' JNull),
      (''quality'', py_get h ''quality'' (JObj [])),
      (''source_title'', py_get h ''sourceTitle'' JNull),
      (''data'', py_get h ''data'' (JObj []))]"

definition with_history :: "json \<Rightarrow> json \<Rightarrow> exn + json" where
  "with_history history result =
     ebind (py_get history ''records'' (JList [])) (\<lambda>records.
     ebind (py_slice_to records 10) (\<lambda>last10.
     ebind (for_each last10 history_entry) (\<lambda>hs.
     set_item result ''history'' (JList hs))))"

definition get_movie_details_body :: "env \<Rightarrow> int \<Rightarrow> bool \<Rightarrow> bool \<Rightarrow> json io" where
  "get_movie_details_body ev movie_id include_files include_history =
     io_bind (make_radarr_request ev (''movie/'' @ str_int movie_id) ''GET'' None) (\<lambda>movie.
     io_bind (io_lift (movie_details_entry movie)) (\<lambda>result.
     io_bind (io_lift (with_file_details include_files movie result)) (\<lambda>result'.
     io_bind
       (if include_history then
          io_bind (make_radarr_request ev (''history/movie?movieId='' @ str_int movie_id) ''GET'' None)
            (\<lambda>history. io_lift (with_history history result'))
        else io_lift (Inr result'))
       (\<lambda>result''. io_lift (Inr (JObj [(''success'', JBool True), (''movie'', result'')]))))))"

definition get_movie_details :: "env \<Rightarrow> int \<Rightarrow> bool \<Rightarrow> bool \<Rightarrow> json \<times> trace" where
  "get_movie_details ev movie_id include_files include_history =
     handle (get_movie_details_body ev movie_id include_files include_history)"

subsection \<open>search_movie_releases\<close>

definition seeders_key :: "json \<Rightarrow> exn + json" where
  "seeders_key x = py_get x ''seeders'' (JInt 0)"

definition size_key :: "json \<Rightarrow> exn + json" where
  "size_key x = py_get x ''size'' (JInt 0)"

definition quality_key :: "json \<Rightarrow> exn + json" where
  "quality_key x = quality_get x ''id'' (JInt 0)"

definition sort_releases :: "string option \<Rightarrow> json \<Rightarrow> exn + json" where
  "sort_releases sort_by releases =
     (if sort_by = Some ''seeders'' then py_sort_reverse seeders_key releases
      else if sort_by = Some ''size'' then py_sort_reverse size_key releases
      else if sort_by = Some ''quality'' then py_sort_reverse quality_key releases
      else Inr releases)"

definition release_entry :: "json \<Rightarrow> exn + json" where
  "release_entry release = mk_obj
     [(''guid'', py_get release ''guid'' JNull),
      (''title'', py_get release ''title'' JNull),
      (''size'', py_get release ''size'' JNull),
      (''age'', py_get release ''age'' JNull),
      (''seeders'', py_get release ''seeders'' JNull),
      (''leechers'', py_get release ''leechers'' JNull),
      (''quality'', quality_get release ''name'' JNull),
      (''indexer'', py_get release ''indexer'' JNull),
      (''download_url'', py_get release ''downloadUrl'' JNull),
      (''approved'', py_get release ''approved'' (JBool False)),
      (''rejection_reasons'', py_get release ''rejections'' (JList []))]"

definition search_movie_releases_result :: "string option \<Rightarrow> json \<Rightarrow> exn + json" where
  "search_movie_releases_result sort_by releases =
     ebind (sort_releases sort_by releases) (\<lambda>releases'.
     ebind (py_slice_to releases' 20) (\<lambda>top.
     ebind (for_each top release_entry) (\<lambda>processed_releases.
     Inr (JObj [(''success'', JBool True),
                (''releases_count'', count_of processed_releases),
                (''releases'', JList processed_releases)]))))"

definition search_movie_releases_body :: "env \<Rightarrow> int \<Rightarrow> string option \<Rightarrow> json io" where
  "search_movie_releases_body ev movie_id sort_by =
     io_bind (make_radarr_request ev (''release?movieId='' @ str_int movie_id) ''GET'' None)
       (\<lambda>releases. io_lift (search_movie_releases_result sort_by releases))"

definition search_movie_releases :: "env \<Rightarrow> int \<Rightarrow> string option \<Rightarrow> json \<times> trace" where
  "search_movie_releases ev movie_id sort_by = handle (search_movie_releases_body ev movie_id sort_by)"

subsection \<open>download_release\<close>

definition download_release_body :: "env \<Rightarrow> string \<Rightarrow> int \<Rightarrow> json io" where
  "download_release_body ev release_guid movie_id =
     io_bind
       (make_radarr_request ev ''release'' ''POST''
          (Some (JObj [(''guid'', JStr release_guid), (''movieId'', JInt movie_id)])))
       (\<lambda>result. io_lift (Inr (JObj [(''success'', JBool True),
          (''message'', JStr ''Download started successfully''), (''release'', result)])))"

definition download_release :: "env \<Rightarrow> string \<Rightarrow> int \<Rightarrow> json \<times> trace" where
  "download_release ev release_guid movie_id = handle (download_release_body ev release_guid movie_id)"

subsection \<open>get_download_queue\<close>

definition queue_entry :: "json \<Rightarrow> exn + json" where
  "queue_entry item = mk_obj
     [(''id'', py_get item ''id'' JNull),
      (''movie_title'', ebind (py_get item ''movie'' (JObj [])) (\<lambda>m. py_get m ''title'' JNull)),
      (''title'', py_get item ''title'' JNull),
      (''size'', py_get item ''size'' JNull),
      (''sizeleft'', py_get item ''sizeleft'' JNull),
      (''status'', py_get item ''status'' JNull),
      (''progress'', py_get item ''progress'' (JInt 0)),
      (''eta'', py_get item ''estimatedCompletionTime'' JNull),
      (''quality'', quality_get item ''name'' JNull),
      (''protocol'', py_get item ''protocol'' JNull),
      (''download_client'', py_get item ''downloadClient'' JNull),
      (''output_path'', py_get item ''outputPath'' JNull),
      (''status_messages'', each_of item ''statusMessages'' (\<lambda>msg. py_get msg ''title'' JNull))]"

definition get_download_queue_result :: "int \<Rightarrow> json \<Rightarrow> exn + json" where
  "get_download_queue_result page_size queue =
     ebind (py_get queue ''records'' (JList [])) (\<lambda>records.
     ebind (for_each records queue_entry) (\<lambda>processed_queue.
     mk_obj
       [(''success'', Inr (JBool True)),
        (''total_records'', py_get queue ''totalRecords'' (JInt 0)),
        (''page'', py_get queue ''page'' (JInt 1)),
        (''page_size'', py_get queue ''pageSize'' (JInt page_size)),
        (''queue'', Inr (JList processed_queue))]))"

text \<open>An f-string writes \<^verbatim>\<open>None\<close> as the text \<^verbatim>\<open>None\<close>.\<close>

definition str_opt :: "string option \<Rightarrow> string" where
  "str_opt x = (case x of None \<Rightarrow> ''None'' | Some s \<Rightarrow> s)"

definition get_download_queue_body :: "env \<Rightarrow> int \<Rightarrow> int \<Rightarrow> string option \<Rightarrow> json io" where
  "get_download_queue_body ev page page_size sort' =
     io_bind
       (make_radarr_request ev
          (''queue?page='' @ str_int page @ ''&pageSize='' @ str_int page_size
             @ ''&sortKey='' @ str_opt sort') ''GET'' None)
       (\<lambda>queue. io_lift (get_download_queue_result page_size queue))"

definition get_download_queue :: "env \<Rightarrow> int \<Rightarrow> int \<Rightarrow> string option \<Rightarrow> json \<times> trace" where
  "get_download_queue ev page page_size sort' =
     handle (get_download_queue_body ev page page_size sort')"

subsection \<open>manage_download_queue\<close>

definition manage_download_queue_body :: "env \<Rightarrow> int \<Rightarrow> string \<Rightarrow> bool \<Rightarrow> json io" where
  "manage_download_queue_body ev queue_id action remove_from_client =
     (if action = ''remove'' then
        io_bind
          (make_radarr_request ev
             (''queue/'' @ str_int queue_id @ ''?'' @ ''removeFromClient=''
                @ (if remove_from_client then ''true'' else ''false''))
             ''DELETE'' None)
          (\<lambda>result. io_lift (Inr (JObj [(''success'', JBool True), (''action'', JStr action),
             (''queue_id'', JInt queue_id), (''result'', result)])))
      else if action = ''retry'' then
        io_bind
          (make_radarr_request ev (''queue/grab/'' @ str_int queue_id) ''POST'' None)
          (\<lambda>result. io_lift (Inr (JObj [(''success'', JBool True), (''action'', JStr action),
             (''queue_id'', JInt queue_id), (''result'', result)])))
      else if action = ''ignore'' then
        io_bind
          (make_radarr_request ev (''queue/'' @ str_int queue_id @ ''?removeFromClient=false'')
             ''DELETE'' None)
          (\<lambda>result. io_lift (Inr (JObj [(''success'', JBool True), (''action'', JStr action),
             (''queue_id'', JInt queue_id), (''result'', result)])))
      else
        io_lift (Inr (error_result (''Invalid action: '' @ action @ ''. Use ''
           @ [CHR 0x27] @ ''remove'' @ [CHR 0x27] @ '', '' @ [CHR 0x27] @ ''retry'' @ [CHR 0x27]
           @ '', or '' @ [CHR 0x27] @ ''ignore'' @ [CHR 0x27]))))"

definition manage_download_queue :: "env \<Rightarrow> int \<Rightarrow> string \<Rightarrow> bool \<Rightarrow> json \<times> trace" where
  "manage_download_queue ev queue_id action remove_from_client =
     handle (manage_download_queue_body ev queue_id action remove_from_client)"

subsection \<open>get_system_defaults\<close>

definition quality_profile_entry :: "json \<Rightarrow> exn + json" where
  "quality_profile_entry p = mk_obj
     [(''id'', py_get p ''id'' JNull),
      (''name'', py_get p ''name'' JNull),
      (''cutoff'', name_of p ''cutoff''),
      (''items'', each_of p ''items'' (\<lambda>item. name_of item ''quality''))]"

definition root_folder_entry :: "json \<Rightarrow> exn + json" where
  "root_folder_entry rf = mk_obj
     [(''id'', py_get rf ''id'' JNull),
      (''path'', py_get rf ''path'' JNull),
      (''accessible'', py_get rf ''accessible'' JNull),
      (''free_space'', py_get rf ''freeSpace'' JNull),
      (''unmapped_folders'',
         ebind (py_get rf ''unmappedFolders'' (JList [])) (\<lambda>u.
         ebind (py_len u) (\<lambda>n. Inr (JInt (int n)))))]"

definition get_system_defaults_result :: "json \<Rightarrow> json \<Rightarrow> exn + json" where
  "get_system_defaults_result profiles root_folders = mk_obj
     [(''success'', Inr (JBool True)),
      (''quality_profiles'',
         ebind (for_each profiles quality_profile_entry) (\<lambda>ps. Inr (JList ps))),
      (''root_folders'',
         ebind (for_each root_folders root_folder_entry) (\<lambda>rs. Inr (JList rs)))]"

definition get_system_defaults_body :: "env \<Rightarrow> json io" where
  "get_system_defaults_body ev =
     io_bind (make_radarr_request ev ''qualityprofile'' ''GET'' None) (\<lambda>profiles.
     io_bind (make_radarr_request ev ''rootfolder'' ''GET'' None) (\<lambda>root_folders.
     io_lift (get_system_defaults_result profiles root_folders)))"

definition get_system_defaults :: "env \<Rightarrow> json \<times> trace" where
  "get_system_defaults ev = handle (get_system_defaults_body ev)"

subsection \<open>get_wanted_movies\<close>

definition wanted_entry :: "json \<Rightarrow> exn + json" where
  "wanted_entry movie = mk_obj
     [(''id'', py_get movie ''id'' JNull),
      (''title'', py_get movie ''title'' JNull),
      (''year'', py_get movie ''year'' JNull),
      (''status'', py_get movie ''status'' JNull),
      (''quality_profile'', name_of movie ''qualityProfile''),
      (''size_on_disk'', py_get movie ''sizeOnDisk'' JNull),
      (''overview'', overview_cut 100 movie),
      (''tmdb_id'', py_get movie ''tmdbId'' JNull),
      (''imdb_id'', py_get movie ''imdbId'' JNull)]"

definition get_wanted_movies_result :: "json \<Rightarrow> exn + json" where
  "get_wanted_movies_result wanted =
     ebind (py_get wanted ''records'' (JList [])) (\<lambda>records.
     ebind (for_each records wanted_entry) (\<lambda>processed_wanted.
     mk_obj
       [(''success'', Inr (JBool True)),
        (''total_records'', py_get wanted ''totalRecords'' (JInt 0)),
        (''page'', py_get wanted ''page'' (JInt 1)),
        (''wanted_movies'', Inr (JList processed_wanted))]))"

definition get_wanted_movies_body :: "env \<Rightarrow> int \<Rightarrow> int \<Rightarrow> json io" where
  "get_wanted_movies_body ev page page_size =
     io_bind
       (make_radarr_request ev
          (''wanted/missing?page='' @ str_int page @ ''&pageSize='' @ str_int page_size
             @ ''&sortKey=title'') ''GET'' None)
       (\<lambda>wanted. io_lift (get_wanted_movies_result wanted))"

definition get_wanted_movies :: "env \<Rightarrow> int \<Rightarrow> int \<Rightarrow> json \<times> trace" where
  "get_wanted_movies ev page page_size = handle (get_wanted_movies_body ev page page_size)"

subsection \<open>manage_indexers\<close>

definition indexer_entry :: "json \<Rightarrow> exn + json" where
  "indexer_entry idx = mk_obj
     [(''id'', py_get idx ''id'' JNull),
      (''name'', py_get idx ''name'' JNull),
      (''implementation'', py_get idx ''implementation'' JNull),
      (''enable_rss'', py_get idx ''enableRss'' JNull),
      (''enable_automatic_search'', py_get idx ''enableAutomaticSearch'' JNull),
      (''enable_interactive_search'', py_get idx ''enableInteractiveSearch'' JNull),
      (''priority'', py_get idx ''priority'' JNull),
      (''tags'', py_get idx ''tags'' (JList []))]"

text \<open>
  \<^verbatim>\<open>action == "test" and indexer_id\<close>: an absent id and the id 0 are both false, as are
  an absent and an empty \<^verbatim>\<open>indexer_data\<close>.
\<close>

definition id_given :: "int option \<Rightarrow> bool" where
  "id_given indexer_id = (case indexer_id of None \<Rightarrow> False | Some i \<Rightarrow> i \<noteq> 0)"

definition data_given :: "(string \<times> json) list option \<Rightarrow> bool" where
  "data_given indexer_data = (case indexer_data of None \<Rightarrow> False | Some kvs \<Rightarrow> kvs \<noteq> [])"

definition str_id :: "int option \<Rightarrow> string" where
  "str_id indexer_id = (case indexer_id of None \<Rightarrow> ''None'' | Some i \<Rightarrow> str_int i)"

definition manage_indexers_body ::
  "env \<Rightarrow> string \<Rightarrow> int option \<Rightarrow> (string \<times> json) list option \<Rightarrow> json io" where
  "manage_indexers_body ev action indexer_id indexer_data =
     (if action = ''list'' then
        io_bind (make_radarr_request ev ''indexer'' ''GET'' None) (\<lambda>indexers.
        io_lift (mk_obj
          [(''success'', Inr (JBool True)),
           (''indexers'', ebind (for_each indexers indexer_entry) (\<lambda>xs. Inr (JList xs)))]))
      else if action = ''test'' \<and> id_given indexer_id then
        io_bind (make_radarr_request ev (''indexer/test/'' @ str_id indexer_id) ''POST'' None)
          (\<lambda>result. io_lift (Inr (JObj [(''success'', JBool True), (''test_result'', result)])))
      else if action = ''add'' \<and> data_given indexer_data then
        io_bind (make_radarr_request ev ''indexer'' ''POST'' (map_option JObj indexer_data))
          (\<lambda>result. io_lift (Inr (JObj [(''success'', JBool True), (''indexer'', result)])))
      else if action = ''update'' \<and> id_given indexer_id \<and> data_given indexer_data then
        io_bind
          (make_radarr_request ev (''indexer/'' @ str_id indexer_id) ''PUT''
             (map_option JObj indexer_data))
          (\<lambda>result. io_lift (Inr (JObj [(''success'', JBool True), (''indexer'', result)])))
      else if action = ''delete'' \<and> id_given indexer_id then
        io_bind (make_radarr_request ev (''indexer/'' @ str_id indexer_id) ''DELETE'' None)
          (\<lambda>result. io_lift (Inr (JObj [(''success'', JBool True), (''deleted'', JBool True)])))
      else
        io_lift (Inr (error_result ''Invalid action or missing required parameters'')))"

definition manage_indexers ::
  "env \<Rightarrow> string \<Rightarrow> int option \<Rightarrow> (string \<times> json) list option \<Rightarrow> json \<times> trace" where
  "manage_indexers ev action indexer_id indexer_data =
     handle (manage_indexers_body ev action indexer_id indexer_data)"

subsection \<open>get_calendar\<close>

text \<open>\<^verbatim>\<open>if not start_date\<close>: an absent and an empty string are both false.\<close>

definition given :: "string option \<Rightarrow> bool" where
  "given x = (case x of None \<Rightarrow> False | Some s \<Rightarrow> s \<noteq> [])"

definition calendar_start :: "env \<Rightarrow> string option \<Rightarrow> string" where
  "calendar_start ev start_date =
     (if \<not> given start_date then strftime_ymd (now_ymd ev) else str_opt start_date)"

definition calendar_end :: "string \<Rightarrow> string option \<Rightarrow> exn + string" where
  "calendar_end start end_date =
     (if \<not> given end_date then
        ebind (strptime_ymd start) (\<lambda>dt.
        ebind (add_days dt 30) (\<lambda>end_dt. Inr (strftime_ymd end_dt)))
      else Inr (str_opt end_date))"

definition calendar_entry :: "json \<Rightarrow> exn + json" where
  "calendar_entry movie = mk_obj
     [(''id'', py_get movie ''id'' JNull),
      (''title'', py_get movie ''title'' JNull),
      (''year'', py_get movie ''year'' JNull),
      (''status'', py_get movie ''status'' JNull),
      (''monitored'', py_get movie ''monitored'' JNull),
      (''has_file'', py_get movie ''hasFile'' JNull),
      (''physical_release'', py_get movie ''physicalRelease'' JNull),
      (''digital_release'', py_get movie ''digitalRelease'' JNull),
      (''in_cinemas'', py_get movie ''inCinemas'' JNull),
      (''quality_profile'', name_of movie ''qualityProfile''),
      (''overview'', overview_cut 150 movie)]"

definition get_calendar_result :: "string \<Rightarrow> string \<Rightarrow> json \<Rightarrow> exn + json" where
  "get_calendar_result start end' calendar =
     ebind (for_each calendar calendar_entry) (\<lambda>processed_calendar.
     Inr (JObj [(''success'', JBool True),
                (''date_range'', JStr (start @ '' to '' @ end')),
                (''movies_count'', count_of processed_calendar),
                (''movies'', JList processed_calendar)]))"

definition get_calendar_body :: "env \<Rightarrow> string option \<Rightarrow> string option \<Rightarrow> json io" where
  "get_calendar_body ev start_date end_date =
     io_bind (io_lift (calendar_end (calendar_start ev start_date) end_date)) (\<lambda>end'.
     io_bind
       (make_radarr_request ev
          (''calendar?start='' @ calendar_start ev start_date @ ''&end='' @ end') ''GET'' None)
       (\<lambda>calendar. io_lift (get_calendar_result (calendar_start ev start_date) end' calendar)))"

definition get_calendar :: "env \<Rightarrow> string option \<Rightarrow> string option \<Rightarrow> json \<times> trace" where
  "get_calendar ev start_date end_date = handle (get_calendar_body ev start_date end_date)"

subsection \<open>get_system_status\<close>

definition system_info :: "json \<Rightarrow> exn + json" where
  "system_info status = mk_obj
     [(''version'', py_get status ''version'' JNull),
      (''build_time'', py_get status ''buildTime'' JNull),
      (''is_debug'', py_get status ''isDebug'' JNull),
      (''is_production'', py_get status ''isProduction'' JNull),
      (''is_admin'', py_get status ''isAdmin'' JNull),
      (''is_user_interactive'', py_get status ''isUserInteractive'' JNull),
      (''startup_path'', py_get status ''startupPath'' JNull),
      (''app_data'', py_get status ''appData'' JNull),
      (''os_name'', py_get status ''osName'' JNull),
      (''os_version'', py_get status ''osVersion'' JNull),
      (''is_mono_runtime'', py_get status ''isMonoRuntime'' JNull),
      (''is_mono'', py_get status ''isMono'' JNull),
      (''is_linux'', py_get status ''isLinux'' JNull),
      (''is_windows'', py_get status ''isWindows'' JNull),
      (''mode'', py_get status ''mode'' JNull),
      (''branch'', py_get status ''branch'' JNull),
      (''authentication'', py_get status ''authentication'' JNull),
      (''sqlite_version'', py_get status ''sqliteVersion'' JNull),
      (''migration_version'', py_get status ''migrationVersion'' JNull),
      (''url_base'', py_get status ''urlBase'' JNull),
      (''runtime_version'', py_get status ''runtimeVersion'' JNull)]"

definition health_entry :: "json \<Rightarrow> exn + json" where
  "health_entry check = mk_obj
     [(''source'', py_get check ''source'' JNull),
      (''type'', py_get check ''type'' JNull),
      (''message'', py_get check ''message'' JNull),
      (''wiki_url'', py_get check ''wikiUrl'' JNull)]"

definition disk_entry :: "json \<Rightarrow> exn + json" where
  "disk_entry disk = mk_obj
     [(''path'', py_get disk ''path'' JNull),
      (''label'', py_get disk ''label'' JNull),
      (''free_space'', py_get disk ''freeSpace'' JNull),
      (''total_space'', py_get disk ''totalSpace'' JNull)]"

definition get_system_status_result :: "json \<Rightarrow> json \<Rightarrow> json \<Rightarrow> exn + json" where
  "get_system_status_result status health disk_space = mk_obj
     [(''success'', Inr (JBool True)),
      (''system_info'', system_info status),
      (''health_checks'', ebind (for_each health health_entry) (\<lambda>xs. Inr (JList xs))),
      (''disk_space'', ebind (for_each disk_space disk_entry) (\<lambda>xs. Inr (JList xs)))]"

definition get_system_status_body :: "env \<Rightarrow> json io" where
  "get_system_status_body ev =
     io_bind (make_radarr_request ev ''system/status'' ''GET'' None) (\<lambda>status.
     io_bind (make_radarr_request ev ''health'' ''GET'' None) (\<lambda>health.
     io_bind (make_radarr_request ev ''diskspace'' ''GET'' None) (\<lambda>disk_space.
     io_lift (get_system_status_result status health disk_space))))"

definition get_system_status :: "env \<Rightarrow> json \<times> trace" where
  "get_system_status ev = handle (get_system_status_body ev)"

section \<open>The movie collection resource\<close>

text \<open>
  \<^verbatim>\<open>movie_collection\<close> calls one tool with its default arguments and returns text. Its
  own \<^verbatim>\<open>except\<close> turns an exception of the \<^verbatim>\<open>get\<close> calls into an error text.
\<close>

definition collection_text :: "json \<Rightarrow> exn + string" where
  "collection_text result =
     ebind (py_get result ''success'' JNull) (\<lambda>ok.
       if truthy ok then Inr (json_dumps (Some 2) result)
       else ebind (py_get result ''error'' (JStr ''Unknown error'')) (\<lambda>e.
            Inr (json_dumps None (JObj [(''error'', e)]))))"

definition movie_collection :: "env \<Rightarrow> string \<Rightarrow> string \<times> trace" where
  "movie_collection ev filter' =
     (let (result, tr) =
        (if filter' = ''wanted'' then get_wanted_movies ev 1 20
         else if filter' = ''monitored'' then get_movies ev (Some True) None None
         else if filter' = ''unmonitored'' then get_movies ev (Some False) None None
         else get_movies ev None None None)
      in (case collection_text result of
            Inl e \<Rightarrow> json_dumps None (error_result (str_exn e))
          | Inr text \<Rightarrow> text, tr))"

section \<open>Tool invocations\<close>

text \<open>The thirteen tools the server registers, with the arguments of one invocation.\<close>

datatype invocation =
    Search_movies string "int option"
  | Add_movie string "int option" "string option" bool bool
  | Get_movies "bool option" "string option" "int option"
  | Get_movie_details int bool bool
  | Search_movie_releases int "string option"
  | Download_release string int
  | Get_download_queue int int "string option"
  | Manage_download_queue int string bool
  | Get_system_defaults
  | Get_wanted_movies int int
  | Manage_indexers string "int option" "(string \<times> json) list option"
  | Get_calendar "string option" "string option"
  | Get_system_status

fun tool_body :: "env \<Rightarrow> invocation \<Rightarrow> json io" where
  "tool_body ev (Search_movies q y) = search_movies_body ev q y"
| "tool_body ev (Add_movie i q r m s) = add_movie_body ev i q r m s"
| "tool_body ev (Get_movies m s q) = get_movies_body ev m s q"
| "tool_body ev (Get_movie_details i f h) = get_movie_details_body ev i f h"
| "tool_body ev (Search_movie_releases i s) = search_movie_releases_body ev i s"
| "tool_body ev (Download_release g i) = download_release_body ev g i"
| "tool_body ev (Get_download_queue p n s) = get_download_queue_body ev p n s"
| "tool_body ev (Manage_download_queue i a r) = manage_download_queue_body ev i a r"
| "tool_body ev Get_system_defaults = get_system_defaults_body ev"
| "tool_body ev (Get_wanted_movies p n) = get_wanted_movies_body ev p n"
| "tool_body ev (Manage_indexers a i d) = manage_indexers_body ev a i d"
| "tool_body ev (Get_calendar s e) = get_calendar_body ev s e"
| "tool_body ev Get_system_status = get_system_status_body ev"

fun invoke :: "env \<Rightarrow> invocation \<Rightarrow> json \<times> trace" where
  "invoke ev (Search_movies q y) = search_movies ev q y"
| "invoke ev (Add_movie i q r m s) = add_movie ev i q r m s"
| "invoke ev (Get_movies m s q) = get_movies ev m s q"
| "invoke ev (Get_movie_details i f h) = get_movie_details ev i f h"
| "invoke ev (Search_movie_releases i s) = search_movie_releases ev i s"
| "invoke ev (Download_release g i) = download_release ev g i"
| "invoke ev (Get_download_queue p n s) = get_download_queue ev p n s"
| "invoke ev (Manage_download_queue i a r) = manage_download_queue ev i a r"
| "invoke ev Get_system_defaults = get_system_defaults ev"
| "invoke ev (Get_wanted_movies p n) = get_wanted_movies ev p n"
| "invoke ev (Manage_indexers a i d) = manage_indexers ev a i d"
| "invoke ev (Get_calendar s e) = get_calendar ev s e"
| "invoke ev Get_system_status = get_system_status ev"

text \<open>A well-formed result envelope: \<^verbatim>\<open>success\<close> is true, or \<^verbatim>\<open>error\<close> is a string.\<close>

definition envelope :: "json \<Rightarrow> bool" where
  "envelope r =
     (field r ''success'' = Some (JBool True)
      \<or> (case field r ''error'' of Some (JStr m) \<Rightarrow> True | _ \<Rightarrow> False))"

section \<open>Notions used in the statements\<close>

text \<open>
  One exchange with the upstream service, as the four branches of
  \<^verbatim>\<open>make_radarr_request\<close> perform it: the answer of a \<^verbatim>\<open>DELETE\<close> is the success
  indicator with the status, the answer of the other verbs is the parsed body.
\<close>

definition exchange :: "env \<Rightarrow> request \<Rightarrow> json io" where
  "exchange ev rq tr =
     (case serve ev (map fst tr) rq of
        ClientError m \<Rightarrow> (Inl (client_failure m), tr @ [(rq, ClientError m)])
      | OtherError e \<Rightarrow> (Inl e, tr @ [(rq, OtherError e)])
      | Response s j \<Rightarrow>
          (Inr (if verb rq = ''DELETE''
                then JObj [(''success'', JBool True), (''status'', JInt s)] else j),
           tr @ [(rq, Response s j)]))"

definition api :: "env \<Rightarrow> string \<Rightarrow> string" where
  "api ev path = radarr_url ev @ ''/api/v3/'' @ path"

text \<open>The \<^verbatim>\<open>GET\<close> and the \<^verbatim>\<open>POST\<close> request of an endpoint.\<close>

definition get_rq :: "env \<Rightarrow> string \<Rightarrow> request" where
  "get_rq ev path = \<lparr>verb = ''GET'', url = api ev path, body = None\<rparr>"

definition post_rq :: "env \<Rightarrow> string \<Rightarrow> json \<Rightarrow> request" where
  "post_rq ev path d = \<lparr>verb = ''POST'', url = api ev path, body = Some d\<rparr>"

text \<open>
  Two upstream services for the examples: one that refuses every connection, and one that
  answers a request by its URL from a table and with status 404 elsewhere.
\<close>

definition down :: env where
  "down = \<lparr>radarr_url = ''http://radarr:7878'',
     serve = (\<lambda>h rq. ClientError ''Connection refused''),
     now_ymd = (2024, 1, 1)\<rparr>"

definition serving :: "(string \<times> json) list \<Rightarrow> env" where
  "serving table = \<lparr>radarr_url = ''http://radarr:7878'',
     serve = (\<lambda>h rq. case map_of table (url rq) of
                None \<Rightarrow> ClientError ''404, message=Not Found''
              | Some j \<Rightarrow> Response 200 j),
     now_ymd = (2024, 1, 1)\<rparr>"

text \<open>
  A Radarr that has no quality profile yet and one root folder; it knows the film with
  TMDB id 27205 and answers the lookup of the id 0 with an empty list.
\<close>

definition inception :: json where
  "inception = JObj [(''title'', JStr ''Inception''), (''tmdbId'', JInt 27205)]"

definition fresh_install :: env where
  "fresh_install = serving
     [(''http://radarr:7878/api/v3/movie/lookup/tmdb?tmdbId=27205'', inception),
      (''http://radarr:7878/api/v3/movie/lookup/tmdb?tmdbId=0'', JList []),
      (''http://radarr:7878/api/v3/qualityprofile'', JList []),
      (''http://radarr:7878/api/v3/rootfolder'',
         JList [JObj [(''id'', JInt 1), (''path'', JStr ''/data/films'')]]),
      (''http://radarr:7878/api/v3/movie'',
         JObj [(''id'', JInt 12), (''title'', JStr ''Inception'')])]"

definition inception_data :: json where
  "inception_data = JObj
     [(''title'', JStr ''Inception''), (''year'', JNull),
      (''tmdbId'', JInt 27205), (''imdbId'', JNull),
      (''titleSlug'', JNull), (''images'', JList []),
      (''runtime'', JNull), (''overview'', JNull),
      (''genres'', JList []), (''ratings'', JObj []),
      (''qualityProfileId'', JInt 1),
      (''rootFolderPath'', JStr ''/data/films''),
      (''monitored'', JBool True),
      (''addOptions'', JObj [(''searchForMovie'', JBool True)])]"

text \<open>
  A movie \<open>m\<close> matches the value \<open>v\<close> in the field \<open>k\<close> when \<^verbatim>\<open>m.get(k) == v\<close>.
  \<open>matches_provided\<close> is the conjunction of the filters as the specification words it:
  every filter that is given must match. \<open>passes_filters\<close> is the same with an empty
  status string and a quality profile id 0 counted as not given.
\<close>

definition matches :: "string \<Rightarrow> json \<Rightarrow> json \<Rightarrow> bool" where
  "matches k v m = (case py_get m k JNull of Inl e \<Rightarrow> False | Inr x \<Rightarrow> py_eq x v)"

definition matches_provided :: "bool option \<Rightarrow> string option \<Rightarrow> int option \<Rightarrow> json \<Rightarrow> bool" where
  "matches_provided monitored status quality_profile_id m =
     ((case monitored of None \<Rightarrow> True | Some b \<Rightarrow> matches ''monitored'' (JBool b) m)
      \<and> (case status of None \<Rightarrow> True | Some st \<Rightarrow> matches ''status'' (JStr st) m)
      \<and> (case quality_profile_id of None \<Rightarrow> True
          | Some q \<Rightarrow> matches ''qualityProfileId'' (JInt q) m))"

definition passes_filters :: "bool option \<Rightarrow> string option \<Rightarrow> int option \<Rightarrow> json \<Rightarrow> bool" where
  "passes_filters monitored status quality_profile_id m =
     ((case monitored of None \<Rightarrow> True | Some b \<Rightarrow> matches ''monitored'' (JBool b) m)
      \<and> (case status of None \<Rightarrow> True | Some st \<Rightarrow> st = [] \<or> matches ''status'' (JStr st) m)
      \<and> (case quality_profile_id of None \<Rightarrow> True
          | Some q \<Rightarrow> q = 0 \<or> matches ''qualityProfileId'' (JInt q) m))"

text \<open>A library of two films, and what \<^verbatim>\<open>get_movies\<close> makes of each.\<close>

definition dune :: json where
  "dune = JObj [(''id'', JInt 1), (''title'', JStr ''Dune''), (''monitored'', JBool True),
     (''status'', JStr ''released''), (''qualityProfileId'', JInt 5)]"

definition arrival :: json where
  "arrival = JObj [(''id'', JInt 2), (''title'', JStr ''Arrival''), (''monitored'', JBool False),
     (''status'', JStr ''announced''), (''qualityProfileId'', JInt 4)]"

definition library :: env where
  "library = serving [(''http://radarr:7878/api/v3/movie'', JList [dune, arrival])]"

definition dune_entry :: json where
  "dune_entry = JObj [(''id'', JInt 1), (''title'', JStr ''Dune''), (''year'', JNull),
     (''status'', JStr ''released''), (''monitored'', JBool True), (''has_file'', JBool False),
     (''quality_profile'', JNull), (''size_on_disk'', JInt 0), (''overview'', JStr []),
     (''file_info'', JNull)]"

definition arrival_entry :: json where
  "arrival_entry = JObj [(''id'', JInt 2), (''title'', JStr ''Arrival''), (''year'', JNull),
     (''status'', JStr ''announced''), (''monitored'', JBool False), (''has_file'', JBool False),
     (''quality_profile'', JNull), (''size_on_disk'', JInt 0), (''overview'', JStr []),
     (''file_info'', JNull)]"

text \<open>
  The rule for an overview, in the words of the specification: an overview longer than
  \<open>n\<close> is cut to its first \<open>n\<close> characters followed by three dots, any other is
  unchanged.
\<close>

definition overview_rule :: "nat \<Rightarrow> json \<Rightarrow> json \<Rightarrow> bool" where
  "overview_rule n ov v =
     (case py_len ov of
        Inl e \<Rightarrow> False
      | Inr l \<Rightarrow>
          if n < l then (case ov of JStr s \<Rightarrow> v = JStr (take n s @ ''...'') | _ \<Rightarrow> False)
          else v = ov)"

text \<open>A lookup that answers twelve films, the first with an overview of 250 characters.\<close>

definition epic :: json where
  "epic = JObj [(''title'', JStr ''Inception''), (''overview'', JStr (replicate 250 (CHR ''a'')))]"

definition short :: json where
  "short = JObj [(''title'', JStr ''Inception 2''), (''overview'', JStr ''A sequel.'')]"

definition cinema :: env where
  "cinema = serving
     [(''http://radarr:7878/api/v3/movie/lookup?term=Inception'', JList (epic # replicate 11 short))]"

text \<open>
  The key function \<^verbatim>\<open>search_movie_releases\<close> sorts by for each of the three values of
  \<^verbatim>\<open>sort_by\<close>, and the sorting weight in the words of the specification: the number in
  the field, and 0 when there is none.
\<close>

definition release_key :: "string \<Rightarrow> json \<Rightarrow> exn + json" where
  "release_key sort_by =
     (if sort_by = ''seeders'' then seeders_key
      else if sort_by = ''size'' then size_key
      else quality_key)"

definition number_or_zero :: "json option \<Rightarrow> int" where
  "number_or_zero x = (case x of Some (JInt n) \<Rightarrow> n | _ \<Rightarrow> 0)"

definition sub_object :: "json \<Rightarrow> string \<Rightarrow> json" where
  "sub_object x k = (case field x k of None \<Rightarrow> JObj [] | Some v \<Rightarrow> v)"

definition sort_weight :: "string \<Rightarrow> json \<Rightarrow> int" where
  "sort_weight sort_by x =
     (if sort_by = ''seeders'' then number_or_zero (field x ''seeders'')
      else if sort_by = ''size'' then number_or_zero (field x ''size'')
      else number_or_zero (field (sub_object (sub_object x ''quality'') ''quality'') ''id''))"

text \<open>The integer a pair of key and element is sorted by.\<close>

definition int_key :: "json \<times> 'a \<Rightarrow> int" where
  "int_key p = (case fst p of JInt n \<Rightarrow> n | _ \<Rightarrow> 0)"

text \<open>Three releases of the movie 5, the second without a seeder count.\<close>

definition torrents :: env where
  "torrents = serving
     [(''http://radarr:7878/api/v3/release?movieId=5'',
       JList [JObj [(''guid'', JStr ''a''), (''seeders'', JInt 3)],
              JObj [(''guid'', JStr ''b'')],
              JObj [(''guid'', JStr ''c''), (''seeders'', JInt 5)]])]"

section \<open>Facts about the gateway client\<close>

lemma upper_literals [simp]:
  "upper ''GET'' = ''GET''" "upper ''POST'' = ''POST''" "upper ''PUT'' = ''PUT''"
  "upper ''DELETE'' = ''DELETE''"
  by (simp_all add: upper_def upper_char_def)

lemma mrr_GET: "make_radarr_request ev ep ''GET'' d =
  exchange ev \<lparr>verb = ''GET'', url = api ev (lstrip_slash ep), body = None\<rparr>"
  by (rule ext)
    (simp add: make_radarr_request_def exchange_def send_def api_def Let_def split: outcome.splits)

lemma mrr_POST: "make_radarr_request ev ep ''POST'' d =
  exchange ev \<lparr>verb = ''POST'', url = api ev (lstrip_slash ep), body = d\<rparr>"
  by (rule ext)
    (simp add: make_radarr_request_def exchange_def send_def api_def Let_def split: outcome.splits)

lemma mrr_PUT: "make_radarr_request ev ep ''PUT'' d =
  exchange ev \<lparr>verb = ''PUT'', url = api ev (lstrip_slash ep), body = d\<rparr>"
  by (rule ext)
    (simp add: make_radarr_request_def exchange_def send_def api_def Let_def split: outcome.splits)

lemma mrr_DELETE: "make_radarr_request ev ep ''DELETE'' d =
  exchange ev \<lparr>verb = ''DELETE'', url = api ev (lstrip_slash ep), body = None\<rparr>"
  by (rule ext)
    (simp add: make_radarr_request_def exchange_def send_def api_def Let_def split: outcome.splits)

lemmas mrr = mrr_GET mrr_POST mrr_PUT mrr_DELETE

text \<open>A tool whose first step is an exchange.\<close>

lemma handle_bind_exchange:
  "handle (io_bind (exchange ev rq) f) =
     (case serve ev [] rq of
        ClientError m \<Rightarrow> (error_result (str_exn (client_failure m)), [(rq, ClientError m)])
      | OtherError e \<Rightarrow> (error_result (str_exn e), [(rq, OtherError e)])
      | Response s j \<Rightarrow>
          (case f (if verb rq = ''DELETE''
                   then JObj [(''success'', JBool True), (''status'', JInt s)] else j)
                  [(rq, Response s j)] of
             (Inl e, tr) \<Rightarrow> (error_result (str_exn e), tr)
           | (Inr r, tr) \<Rightarrow> (r, tr)))"
  by (simp add: handle_def io_bind_def exchange_def split: outcome.splits)

section \<open>The download queue\<close>

text \<open>
  C3. For every queue item id and every action other than "remove", "retry" and "ignore",
  \<^verbatim>\<open>manage_download_queue\<close> returns a result with the field \<^verbatim>\<open>error\<close> and makes no
  upstream call: the list of exchanges is empty.
\<close>

theorem manage_download_queue_invalid_action:
  assumes "action \<noteq> ''remove''" and "action \<noteq> ''retry''" and "action \<noteq> ''ignore''"
  shows "manage_download_queue ev queue_id action remove_from_client =
     (JObj [(''error'', JStr (''Invalid action: '' @ action @ ''. Use ''
           @ [CHR 0x27] @ ''remove'' @ [CHR 0x27] @ '', '' @ [CHR 0x27] @ ''retry'' @ [CHR 0x27]
           @ '', or '' @ [CHR 0x27] @ ''ignore'' @ [CHR 0x27]))], [])"
  using assms
  by (simp add: manage_download_queue_def manage_download_queue_body_def handle_def io_lift_def
      error_result_def)

theorem manage_download_queue_invalid_action_witness:
  "manage_download_queue down 7 ''bogus'' False =
     (JObj [(''error'', JStr (''Invalid action: bogus. Use ''
           @ [CHR 0x27] @ ''remove'' @ [CHR 0x27] @ '', '' @ [CHR 0x27] @ ''retry'' @ [CHR 0x27]
           @ '', or '' @ [CHR 0x27] @ ''ignore'' @ [CHR 0x27]))], [])"
  using manage_download_queue_invalid_action [of "''bogus''" down 7 False] by simp

text \<open>
  C8. For every queue item id, the action "ignore" makes exactly the exchange that
  "remove" makes with \<^verbatim>\<open>remove_from_client\<close> false, whatever \<^verbatim>\<open>remove_from_client\<close>
  is given with "ignore": one \<^verbatim>\<open>DELETE\<close> of the queue item with
  \<^verbatim>\<open>removeFromClient=false\<close>. The two results are the same error result, or the same
  success result but for the action they echo.
\<close>

theorem ignore_is_remove_without_client:
  "snd (manage_download_queue ev queue_id ''ignore'' remove_from_client)
     = snd (manage_download_queue ev queue_id ''remove'' False)
   \<and> map fst (snd (manage_download_queue ev queue_id ''ignore'' remove_from_client))
     = [\<lparr>verb = ''DELETE'',
         url = radarr_url ev @ ''/api/v3/queue/'' @ str_int queue_id @ ''?removeFromClient=false'',
         body = None\<rparr>]
   \<and> (fst (manage_download_queue ev queue_id ''ignore'' remove_from_client)
         = fst (manage_download_queue ev queue_id ''remove'' False)
      \<or> (\<exists>result.
           fst (manage_download_queue ev queue_id ''ignore'' remove_from_client)
             = JObj [(''success'', JBool True), (''action'', JStr ''ignore''),
                     (''queue_id'', JInt queue_id), (''result'', result)]
         \<and> fst (manage_download_queue ev queue_id ''remove'' False)
             = JObj [(''success'', JBool True), (''action'', JStr ''remove''),
                     (''queue_id'', JInt queue_id), (''result'', result)]))"
  by (simp add: manage_download_queue_def manage_download_queue_body_def handle_bind_exchange
      io_lift_def mrr api_def lstrip_slash_def split: outcome.splits)

section \<open>Indexers\<close>

text \<open>
  C10. For the actions "test", "update" and "delete" with the indexer id 0,
  \<^verbatim>\<open>manage_indexers\<close> returns the validation error and makes no upstream call: the id 0
  is treated as an absent id.
\<close>

theorem manage_indexers_id_zero:
  assumes "action = ''test'' \<or> action = ''update'' \<or> action = ''delete''"
  shows "manage_indexers ev action (Some 0) indexer_data =
     (JObj [(''error'', JStr ''Invalid action or missing required parameters'')], [])
   \<and> manage_indexers ev action (Some 0) indexer_data = manage_indexers ev action None indexer_data"
  using assms
  by (auto simp add: manage_indexers_def manage_indexers_body_def handle_def io_lift_def
      id_given_def error_result_def)

theorem manage_indexers_id_zero_witness:
  "manage_indexers down ''delete'' (Some 0) None =
     (JObj [(''error'', JStr ''Invalid action or missing required parameters'')], [])
   \<and> manage_indexers down ''delete'' (Some 0) None = manage_indexers down ''delete'' None None"
proof -
  have "''delete'' = ''test'' \<or> ''delete'' = ''update'' \<or> ''delete'' = ''delete''"
    by simp
  from manage_indexers_id_zero [OF this] show ?thesis .
qed

section \<open>Facts about results and exchanges\<close>

lemma mk_fields_map_of:
  "mk_fields fs = Inr kvs \<Longrightarrow>
     map_of kvs k = (case map_of fs k of None \<Rightarrow> None | Some v \<Rightarrow> (case v of Inl e \<Rightarrow> None | Inr x \<Rightarrow> Some x))"
  by (induction fs arbitrary: kvs) (auto split: sum.splits)

lemma field_mk_obj:
  "mk_obj fs = Inr d \<Longrightarrow>
     field d k = (case map_of fs k of None \<Rightarrow> None | Some v \<Rightarrow> (case v of Inl e \<Rightarrow> None | Inr x \<Rightarrow> Some x))"
  by (auto simp: mk_obj_def field_def mk_fields_map_of split: sum.splits)

lemma movie_data_fields:
  assumes "movie_data ml qp rf mon soa = Inr d"
  shows "field d ''qualityProfileId'' = Some qp" and "field d ''rootFolderPath'' = Some rf"
  using assms by (simp_all add: movie_data_def field_mk_obj)

lemma io_bind_exchange:
  "io_bind (exchange ev rq) f tr =
     (case serve ev (map fst tr) rq of
        ClientError m \<Rightarrow> (Inl (client_failure m), tr @ [(rq, ClientError m)])
      | OtherError e \<Rightarrow> (Inl e, tr @ [(rq, OtherError e)])
      | Response s j \<Rightarrow>
          f (if verb rq = ''DELETE'' then JObj [(''success'', JBool True), (''status'', JInt s)] else j)
            (tr @ [(rq, Response s j)]))"
  by (simp add: io_bind_def exchange_def split: outcome.splits)

lemma io_bind_lift:
  "io_bind (io_lift e) f tr = (case e of Inl x \<Rightarrow> (Inl x, tr) | Inr y \<Rightarrow> f y tr)"
  by (simp add: io_bind_def io_lift_def split: sum.splits)

lemma api_inj [simp]: "api ev a = api ev b \<longleftrightarrow> a = b"
  by (simp add: api_def)

lemma rq_simps [simp]:
  "verb (get_rq ev a) = ''GET''" "verb (post_rq ev a d) = ''POST''"
  "get_rq ev a = get_rq ev b \<longleftrightarrow> a = b"
  "get_rq ev a \<noteq> post_rq ev b d" "post_rq ev b d \<noteq> get_rq ev a"
  "post_rq ev a d = post_rq ev b d' \<longleftrightarrow> a = b \<and> d = d'"
  by (auto simp: get_rq_def post_rq_def)

lemma mrr_get: "make_radarr_request ev ep ''GET'' d = exchange ev (get_rq ev (lstrip_slash ep))"
  by (simp add: mrr_GET get_rq_def)

lemma mrr_post: "make_radarr_request ev ep ''POST'' (Some d) = exchange ev (post_rq ev (lstrip_slash ep) d)"
  by (simp add: mrr_POST post_rq_def)

lemma lstrip_slash_simps [simp]:
  "lstrip_slash [] = []"
  "lstrip_slash (c # cs) = (if c = CHR ''/'' then lstrip_slash cs else c # cs)"
  by (simp_all add: lstrip_slash_def)

lemma handle_run:
  assumes "handle m = (r, tr)"
  obtains res where "m [] = (res, tr)"
    and "r = (case res of Inl e \<Rightarrow> error_result (str_exn e) | Inr x \<Rightarrow> x)"
  using assms by (auto simp: handle_def split: prod.splits sum.splits)

section \<open>Adding a movie\<close>

lemma choose_quality_profile_run:
  assumes "choose_quality_profile ev q tr = (res, tr')"
  shows "case q of
           Some i \<Rightarrow> res = Inr (JInt i) \<and> tr' = tr
         | None \<Rightarrow> (\<exists>out. tr' = tr @ [(get_rq ev ''qualityprofile'', out)]
               \<and> (\<forall>v. res = Inr v \<longrightarrow> (\<exists>s p. out = Response s p \<and> default_quality_profile p = Inr v)))"
  using assms
  by (auto simp: choose_quality_profile_def mrr_get io_bind_exchange io_lift_def
      split: option.splits outcome.splits)

lemma choose_root_folder_run:
  assumes "choose_root_folder ev q tr = (res, tr')"
  shows "case q of
           Some p \<Rightarrow> res = Inr (JStr p) \<and> tr' = tr
         | None \<Rightarrow> (\<exists>out. tr' = tr @ [(get_rq ev ''rootfolder'', out)]
               \<and> (\<forall>v. res = Inr v \<longrightarrow> (\<exists>s p. out = Response s p \<and> default_root_folder p = Inr v)))"
  using assms
  by (auto simp: choose_root_folder_def mrr_get io_bind_exchange io_lift_def
      split: option.splits outcome.splits)

lemma create_movie_run:
  assumes "create_movie ev ml qp rf mon soa tr = (res, tr')"
  shows "tr' = tr \<or> (\<exists>d out. tr' = tr @ [(post_rq ev ''movie'' d, out)] \<and> movie_data ml qp rf mon soa = Inr d)"
  using assms
  by (auto simp: create_movie_def mrr_post io_bind_exchange io_bind_lift io_lift_def
      split: sum.splits outcome.splits)

lemma add_movie_body_run:
  assumes "add_movie_body ev movie_id q f mon soa [] = (res, tr)"
  obtains o1 t2 t3 t4 where
    "tr = (get_rq ev (''movie/lookup/tmdb?tmdbId='' @ movie_id), o1) # t2 @ t3 @ t4"
    and "\<forall>s j. o1 = Response s j \<and> \<not> truthy j \<longrightarrow>
           res = Inr (error_result (''Movie with TMDB ID '' @ movie_id @ '' not found''))
           \<and> t2 = [] \<and> t3 = [] \<and> t4 = []"
    and "t2 = [] \<or> (\<exists>out. t2 = [(get_rq ev ''qualityprofile'', out)] \<and> q = None)"
    and "t3 = [] \<or> (\<exists>out. t3 = [(get_rq ev ''rootfolder'', out)] \<and> f = None)"
    and "t4 = [] \<or> (\<exists>d out ml qp rf. t4 = [(post_rq ev ''movie'' d, out)]
           \<and> movie_data ml qp rf mon soa = Inr d
           \<and> (q = None \<longrightarrow> (\<exists>s p. t2 = [(get_rq ev ''qualityprofile'', Response s p)]
                 \<and> default_quality_profile p = Inr qp))
           \<and> (f = None \<longrightarrow> (\<exists>s p. t3 = [(get_rq ev ''rootfolder'', Response s p)]
                 \<and> default_root_folder p = Inr rf)))"
proof (cases "serve ev [] (get_rq ev (''movie/lookup/tmdb?tmdbId='' @ movie_id))")
  case (ClientError m)
  with assms have "tr = (get_rq ev (''movie/lookup/tmdb?tmdbId='' @ movie_id), ClientError m) # [] @ [] @ []"
    by (auto simp add: add_movie_body_def mrr_get io_bind_exchange)
  then show ?thesis by (rule that) simp_all
next
  case (OtherError e)
  with assms have "tr = (get_rq ev (''movie/lookup/tmdb?tmdbId='' @ movie_id), OtherError e) # [] @ [] @ []"
    by (auto simp add: add_movie_body_def mrr_get io_bind_exchange)
  then show ?thesis by (rule that) simp_all
next
  case (Response s ml)
  let ?t1 = "[(get_rq ev (''movie/lookup/tmdb?tmdbId='' @ movie_id), Response s ml)]"
  show ?thesis
  proof (cases "truthy ml")
    case False
    with assms Response have "tr = (get_rq ev (''movie/lookup/tmdb?tmdbId='' @ movie_id), Response s ml) # [] @ [] @ []"
      and "res = Inr (error_result (''Movie with TMDB ID '' @ movie_id @ '' not found''))"
      by (auto simp add: add_movie_body_def mrr_get io_bind_exchange io_lift_def)
    then show ?thesis by (intro that [of "Response s ml" "[]" "[]" "[]"]) simp_all
  next
    case True
    with assms Response have run:
      "io_bind (choose_quality_profile ev q) (\<lambda>qp.
         io_bind (choose_root_folder ev f) (\<lambda>rf. create_movie ev ml qp rf mon soa)) ?t1 = (res, tr)"
      by (simp add: add_movie_body_def mrr_get io_bind_exchange)
    obtain r2 tr2 where c2: "choose_quality_profile ev q ?t1 = (r2, tr2)"
      by (cases "choose_quality_profile ev q ?t1") auto
    from choose_quality_profile_run [OF c2] obtain t2 where t2: "tr2 = ?t1 @ t2"
      and t2s: "t2 = [] \<or> (\<exists>out. t2 = [(get_rq ev ''qualityprofile'', out)] \<and> q = None)"
      and t2v: "\<And>v. r2 = Inr v \<Longrightarrow> q = None \<Longrightarrow>
           \<exists>s p. t2 = [(get_rq ev ''qualityprofile'', Response s p)] \<and> default_quality_profile p = Inr v"
      by (cases q) auto
    show ?thesis
    proof (cases r2)
      case (Inl e)
      with run c2 t2 have "tr = (get_rq ev (''movie/lookup/tmdb?tmdbId='' @ movie_id), Response s ml) # t2 @ [] @ []"
        by (auto simp: io_bind_def)
      then show ?thesis using t2s True by (intro that [of "Response s ml" t2 "[]" "[]"]) simp_all
    next
      case (Inr qp)
      with run c2 have run3: "io_bind (choose_root_folder ev f) (\<lambda>rf. create_movie ev ml qp rf mon soa) tr2 = (res, tr)"
        by (simp add: io_bind_def)
      obtain r3 tr3 where c3: "choose_root_folder ev f tr2 = (r3, tr3)"
        by (cases "choose_root_folder ev f tr2") auto
      from choose_root_folder_run [OF c3] obtain t3 where t3: "tr3 = tr2 @ t3"
        and t3s: "t3 = [] \<or> (\<exists>out. t3 = [(get_rq ev ''rootfolder'', out)] \<and> f = None)"
        and t3v: "\<And>v. r3 = Inr v \<Longrightarrow> f = None \<Longrightarrow>
           \<exists>s p. t3 = [(get_rq ev ''rootfolder'', Response s p)] \<and> default_root_folder p = Inr v"
        by (cases f) auto
      show ?thesis
      proof (cases r3)
        case (Inl e)
        with run3 c3 t3 t2 have "tr = (get_rq ev (''movie/lookup/tmdb?tmdbId='' @ movie_id), Response s ml) # t2 @ t3 @ []"
          by (auto simp: io_bind_def)
        then show ?thesis using t2s t3s True
          by (intro that [of "Response s ml" t2 t3 "[]"]) simp_all
      next
        case rf: (Inr rf)
        with run3 c3 have run4: "create_movie ev ml qp rf mon soa tr3 = (res, tr)"
          by (simp add: io_bind_def)
        from create_movie_run [OF run4] obtain t4 where t4: "tr = tr3 @ t4"
          and t4s: "t4 = [] \<or> (\<exists>d out. t4 = [(post_rq ev ''movie'' d, out)] \<and> movie_data ml qp rf mon soa = Inr d)"
          by auto
        have shape: "tr = (get_rq ev (''movie/lookup/tmdb?tmdbId='' @ movie_id), Response s ml) # t2 @ t3 @ t4"
          using t2 t3 t4 by simp
        have last: "t4 = [] \<or> (\<exists>d out ml qp rf. t4 = [(post_rq ev ''movie'' d, out)]
           \<and> movie_data ml qp rf mon soa = Inr d
           \<and> (q = None \<longrightarrow> (\<exists>s p. t2 = [(get_rq ev ''qualityprofile'', Response s p)]
                 \<and> default_quality_profile p = Inr qp))
           \<and> (f = None \<longrightarrow> (\<exists>s p. t3 = [(get_rq ev ''rootfolder'', Response s p)]
                 \<and> default_root_folder p = Inr rf)))"
        proof (cases "t4 = []")
          case False
          with t4s obtain d out where "t4 = [(post_rq ev ''movie'' d, out)]"
            and "movie_data ml qp rf mon soa = Inr d" by blast
          with t2v [OF Inr] t3v [OF rf] show ?thesis by blast
        qed simp
        show ?thesis
          using shape True t2s t3s last
          by (intro that [of "Response s ml" t2 t3 t4]) simp_all
      qed
    qed
  qed
qed

lemma default_simps:
  "default_quality_profile (JList []) = Inr (JInt 1)"
  "default_quality_profile (JList (p # ps)) = py_item p ''id''"
  "default_root_folder (JList []) = Inr (JStr ''/movies'')"
  "default_root_folder (JList (p # ps)) = py_item p ''path''"
  by (simp_all add: default_quality_profile_def default_root_folder_def ebind_def)

lemma fresh_install_run:
  "snd (add_movie fresh_install ''27205'' None None True True) =
     [(get_rq fresh_install ''movie/lookup/tmdb?tmdbId=27205'', Response 200 inception),
      (get_rq fresh_install ''qualityprofile'', Response 200 (JList [])),
      (get_rq fresh_install ''rootfolder'', Response 200 (JList [JObj [(''id'', JInt 1), (''path'', JStr ''/data/films'')]])),
      (post_rq fresh_install ''movie'' inception_data, Response 200 (JObj [(''id'', JInt 12), (''title'', JStr ''Inception'')]))]"
  by code_simp

lemma fresh_install_not_found:
  "add_movie fresh_install ''0'' None None True True =
     (JObj [(''error'', JStr ''Movie with TMDB ID 0 not found'')],
      [(get_rq fresh_install ''movie/lookup/tmdb?tmdbId=0'', Response 200 (JList []))])"
  by code_simp


text \<open>
  C6. In every run of \<^verbatim>\<open>add_movie\<close>: when the lookup by the external id answers with an
  empty result, the tool returns the "not found" error and the lookup is its only exchange,
  so no movie is created. When a movie-create request is made, then with
  \<^verbatim>\<open>quality_profile_id\<close> omitted its quality profile id is 1 if the upstream list of
  quality profiles is empty and the \<^verbatim>\<open>id\<close> of the first entry if it is not, and with
  \<^verbatim>\<open>root_folder_path\<close> omitted its root folder is \<^verbatim>\<open>/movies\<close> if the upstream list of
  root folders is empty and the \<^verbatim>\<open>path\<close> of the first entry if it is not.
\<close>

theorem add_movie_defaults:
  assumes run: "add_movie ev movie_id quality_profile_id root_folder_path monitored search_on_add = (r, tr)"
  shows "(\<forall>s j. (get_rq ev (''movie/lookup/tmdb?tmdbId='' @ movie_id), Response s j) \<in> set tr \<and> \<not> truthy j
            \<longrightarrow> r = JObj [(''error'', JStr (''Movie with TMDB ID '' @ movie_id @ '' not found''))]
                \<and> tr = [(get_rq ev (''movie/lookup/tmdb?tmdbId='' @ movie_id), Response s j)])
       \<and> (\<forall>d out. (post_rq ev ''movie'' d, out) \<in> set tr \<longrightarrow>
            (\<forall>s profiles. quality_profile_id = None
                \<and> (get_rq ev ''qualityprofile'', Response s profiles) \<in> set tr
              \<longrightarrow> (profiles = JList [] \<longrightarrow> field d ''qualityProfileId'' = Some (JInt 1))
                \<and> (\<forall>p ps. profiles = JList (p # ps) \<longrightarrow>
                      (\<exists>v. py_item p ''id'' = Inr v \<and> field d ''qualityProfileId'' = Some v)))
          \<and> (\<forall>s folders. root_folder_path = None
                \<and> (get_rq ev ''rootfolder'', Response s folders) \<in> set tr
              \<longrightarrow> (folders = JList [] \<longrightarrow> field d ''rootFolderPath'' = Some (JStr ''/movies''))
                \<and> (\<forall>p ps. folders = JList (p # ps) \<longrightarrow>
                      (\<exists>v. py_item p ''path'' = Inr v \<and> field d ''rootFolderPath'' = Some v))))"
proof -
  from run obtain res where body: "add_movie_body ev movie_id quality_profile_id root_folder_path monitored search_on_add [] = (res, tr)"
    and r: "r = (case res of Inl e \<Rightarrow> error_result (str_exn e) | Inr x \<Rightarrow> x)"
    unfolding add_movie_def by (rule handle_run)
  obtain o1 t2 t3 t4 where
    tr: "tr = (get_rq ev (''movie/lookup/tmdb?tmdbId='' @ movie_id), o1) # t2 @ t3 @ t4"
    and nf: "\<forall>s j. o1 = Response s j \<and> \<not> truthy j \<longrightarrow>
           res = Inr (error_result (''Movie with TMDB ID '' @ movie_id @ '' not found''))
           \<and> t2 = [] \<and> t3 = [] \<and> t4 = []"
    and t2: "t2 = [] \<or> (\<exists>out. t2 = [(get_rq ev ''qualityprofile'', out)] \<and> quality_profile_id = None)"
    and t3: "t3 = [] \<or> (\<exists>out. t3 = [(get_rq ev ''rootfolder'', out)] \<and> root_folder_path = None)"
    and t4: "t4 = [] \<or> (\<exists>d out ml qp rf. t4 = [(post_rq ev ''movie'' d, out)]
           \<and> movie_data ml qp rf monitored search_on_add = Inr d
           \<and> (quality_profile_id = None \<longrightarrow> (\<exists>s p. t2 = [(get_rq ev ''qualityprofile'', Response s p)]
                 \<and> default_quality_profile p = Inr qp))
           \<and> (root_folder_path = None \<longrightarrow> (\<exists>s p. t3 = [(get_rq ev ''rootfolder'', Response s p)]
                 \<and> default_root_folder p = Inr rf)))"
    by (rule add_movie_body_run [OF body])
  have not_found: "r = JObj [(''error'', JStr (''Movie with TMDB ID '' @ movie_id @ '' not found''))]
                \<and> tr = [(get_rq ev (''movie/lookup/tmdb?tmdbId='' @ movie_id), Response s j)]"
    if "(get_rq ev (''movie/lookup/tmdb?tmdbId='' @ movie_id), Response s j) \<in> set tr" "\<not> truthy j" for s j
  proof -
    from that(1) tr t2 t3 t4 have "o1 = Response s j" by auto
    with nf that(2) tr r show ?thesis
      by (simp add: error_result_def)
  qed
  have created: "(\<forall>s profiles. quality_profile_id = None
                \<and> (get_rq ev ''qualityprofile'', Response s profiles) \<in> set tr
              \<longrightarrow> (profiles = JList [] \<longrightarrow> field d ''qualityProfileId'' = Some (JInt 1))
                \<and> (\<forall>p ps. profiles = JList (p # ps) \<longrightarrow>
                      (\<exists>v. py_item p ''id'' = Inr v \<and> field d ''qualityProfileId'' = Some v)))
          \<and> (\<forall>s folders. root_folder_path = None
                \<and> (get_rq ev ''rootfolder'', Response s folders) \<in> set tr
              \<longrightarrow> (folders = JList [] \<longrightarrow> field d ''rootFolderPath'' = Some (JStr ''/movies''))
                \<and> (\<forall>p ps. folders = JList (p # ps) \<longrightarrow>
                      (\<exists>v. py_item p ''path'' = Inr v \<and> field d ''rootFolderPath'' = Some v)))"
    if "(post_rq ev ''movie'' d, out) \<in> set tr" for d out
  proof -
    from that tr t2 t3 t4 obtain ml qp rf where t4': "t4 = [(post_rq ev ''movie'' d, out)]"
      and md: "movie_data ml qp rf monitored search_on_add = Inr d"
      and qp: "quality_profile_id = None \<Longrightarrow> \<exists>s p. t2 = [(get_rq ev ''qualityprofile'', Response s p)] \<and> default_quality_profile p = Inr qp"
      and rf: "root_folder_path = None \<Longrightarrow> \<exists>s p. t3 = [(get_rq ev ''rootfolder'', Response s p)] \<and> default_root_folder p = Inr rf"
      by auto
    note fields = movie_data_fields [OF md]
    have a: "(profiles = JList [] \<longrightarrow> field d ''qualityProfileId'' = Some (JInt 1))
                \<and> (\<forall>p ps. profiles = JList (p # ps) \<longrightarrow>
                      (\<exists>v. py_item p ''id'' = Inr v \<and> field d ''qualityProfileId'' = Some v))"
      if "quality_profile_id = None" "(get_rq ev ''qualityprofile'', Response s profiles) \<in> set tr" for s profiles
    proof -
      from qp [OF that(1)] obtain s' p where "t2 = [(get_rq ev ''qualityprofile'', Response s' p)]"
        and dq: "default_quality_profile p = Inr qp" by blast
      with that(2) tr t3 t4' have "profiles = p" by auto
      with dq fields(1) show ?thesis by (auto simp: default_simps)
    qed
    have b: "(folders = JList [] \<longrightarrow> field d ''rootFolderPath'' = Some (JStr ''/movies''))
                \<and> (\<forall>p ps. folders = JList (p # ps) \<longrightarrow>
                      (\<exists>v. py_item p ''path'' = Inr v \<and> field d ''rootFolderPath'' = Some v))"
      if "root_folder_path = None" "(get_rq ev ''rootfolder'', Response s folders) \<in> set tr" for s folders
    proof -
      from rf [OF that(1)] obtain s' p where "t3 = [(get_rq ev ''rootfolder'', Response s' p)]"
        and dq: "default_root_folder p = Inr rf" by blast
      with that(2) tr t2 t4' have "folders = p" by auto
      with dq fields(2) show ?thesis by (auto simp: default_simps)
    qed
    from a b show ?thesis by blast
  qed
  from not_found created show ?thesis by blast
qed


theorem add_movie_defaults_witness:
  "(post_rq fresh_install ''movie'' inception_data,
      Response 200 (JObj [(''id'', JInt 12), (''title'', JStr ''Inception'')]))
     \<in> set (snd (add_movie fresh_install ''27205'' None None True True))
   \<and> (get_rq fresh_install ''qualityprofile'', Response 200 (JList []))
     \<in> set (snd (add_movie fresh_install ''27205'' None None True True))
   \<and> field inception_data ''qualityProfileId'' = Some (JInt 1)
   \<and> field inception_data ''rootFolderPath'' = Some (JStr ''/data/films'')
   \<and> add_movie fresh_install ''0'' None None True True =
       (JObj [(''error'', JStr ''Movie with TMDB ID 0 not found'')],
        [(get_rq fresh_install ''movie/lookup/tmdb?tmdbId=0'', Response 200 (JList []))])"
proof -
  let ?run = "add_movie fresh_install ''27205'' None None True True"
  let ?folder = "JObj [(''id'', JInt 1), (''path'', JStr ''/data/films'')]"
  have run: "?run = (fst ?run, snd ?run)"
    by simp
  have post: "(post_rq fresh_install ''movie'' inception_data,
      Response 200 (JObj [(''id'', JInt 12), (''title'', JStr ''Inception'')])) \<in> set (snd ?run)"
    and profiles: "(get_rq fresh_install ''qualityprofile'', Response 200 (JList [])) \<in> set (snd ?run)"
    and folders: "(get_rq fresh_install ''rootfolder'', Response 200 (JList [?folder])) \<in> set (snd ?run)"
    by (simp_all add: fresh_install_run)
  from add_movie_defaults [OF run] post have created:
    "(\<forall>s profiles. None = (None :: int option)
         \<and> (get_rq fresh_install ''qualityprofile'', Response s profiles) \<in> set (snd ?run)
       \<longrightarrow> (profiles = JList [] \<longrightarrow> field inception_data ''qualityProfileId'' = Some (JInt 1))
         \<and> (\<forall>p ps. profiles = JList (p # ps) \<longrightarrow>
               (\<exists>v. py_item p ''id'' = Inr v \<and> field inception_data ''qualityProfileId'' = Some v)))
     \<and> (\<forall>s folders. None = (None :: string option)
         \<and> (get_rq fresh_install ''rootfolder'', Response s folders) \<in> set (snd ?run)
       \<longrightarrow> (folders = JList [] \<longrightarrow> field inception_data ''rootFolderPath'' = Some (JStr ''/movies''))
         \<and> (\<forall>p ps. folders = JList (p # ps) \<longrightarrow>
               (\<exists>v. py_item p ''path'' = Inr v \<and> field inception_data ''rootFolderPath'' = Some v)))"
    by blast
  from created profiles have a: "field inception_data ''qualityProfileId'' = Some (JInt 1)"
    by blast
  from created folders have "\<exists>v. py_item ?folder ''path'' = Inr v
      \<and> field inception_data ''rootFolderPath'' = Some v"
    by blast
  then have b: "field inception_data ''rootFolderPath'' = Some (JStr ''/data/films'')"
    by simp
  let ?miss = "add_movie fresh_install ''0'' None None True True"
  have miss: "?miss = (fst ?miss, snd ?miss)"
    by simp
  have "(get_rq fresh_install (''movie/lookup/tmdb?tmdbId='' @ ''0''), Response 200 (JList []))
      \<in> set (snd ?miss) \<and> \<not> truthy (JList [])"
    by (simp add: fresh_install_not_found)
  with add_movie_defaults [OF miss] have
    "fst ?miss = JObj [(''error'', JStr (''Movie with TMDB ID '' @ ''0'' @ '' not found''))]
     \<and> snd ?miss = [(get_rq fresh_install (''movie/lookup/tmdb?tmdbId='' @ ''0''), Response 200 (JList []))]"
    by blast
  then have c: "?miss = (JObj [(''error'', JStr ''Movie with TMDB ID 0 not found'')],
        [(get_rq fresh_install ''movie/lookup/tmdb?tmdbId=0'', Response 200 (JList []))])"
    by (simp add: prod_eq_iff)
  from post profiles a b c show ?thesis
    by blast
qed

section \<open>Facts about loops and single exchanges\<close>

lemma handle_one_exchange:
  assumes "verb rq \<noteq> ''DELETE''"
  shows "handle (io_bind (exchange ev rq) (\<lambda>x. io_lift (g x))) =
     (case serve ev [] rq of
        ClientError m \<Rightarrow> error_result (str_exn (client_failure m))
      | OtherError e \<Rightarrow> error_result (str_exn e)
      | Response s j \<Rightarrow> (case g j of Inl e \<Rightarrow> error_result (str_exn e) | Inr r \<Rightarrow> r),
      [(rq, serve ev [] rq)])"
  using assms
  by (simp add: handle_bind_exchange io_lift_def split: outcome.splits sum.splits)

lemma field_error_result [simp]:
  "field (error_result m) ''success'' = None"
  by (simp add: error_result_def field_def)

lemma efilter_Inr:
  "efilter p xs = Inr ys \<Longrightarrow> ys = filter (\<lambda>x. p x = Inr True) xs"
  by (induction xs arbitrary: ys) (auto split: sum.splits if_splits)

lemma emap_Inr:
  "emap f xs = Inr ys \<Longrightarrow> list_all2 (\<lambda>x y. f x = Inr y) xs ys"
  by (induction xs arbitrary: ys) (auto split: sum.splits)

lemma emap_Inr_set:
  "emap f xs = Inr ys \<Longrightarrow> \<forall>y \<in> set ys. \<exists>x \<in> set xs. f x = Inr y"
  by (induction xs arbitrary: ys) (auto split: sum.splits)

lemma ebind_Inr:
  "ebind m f = Inr r \<longleftrightarrow> (\<exists>x. m = Inr x \<and> f x = Inr r)"
  by (cases m) (simp_all add: ebind_def)

section \<open>The library\<close>

lemma keep_equal_Inr:
  assumes "keep_equal k v movies = Inr r"
  shows "\<exists>ms. py_iter movies = Inr ms \<and> r = JList (filter (matches k v) ms)"
proof -
  from assms obtain ms kept where ms: "py_iter movies = Inr ms"
    and kept: "efilter (\<lambda>m. ebind (py_get m k JNull) (\<lambda>x. Inr (py_eq x v))) ms = Inr kept"
    and r: "r = JList kept"
    by (auto simp: keep_equal_def ebind_Inr)
  have "(ebind (py_get m k JNull) (\<lambda>x. Inr (py_eq x v)) = Inr True) = matches k v m" for m
    by (cases "py_get m k JNull") (simp_all add: ebind_def matches_def)
  with efilter_Inr [OF kept] r ms show ?thesis
    by simp
qed

lemma apply_filters_Inr:
  assumes "apply_filters monitored status quality_profile_id movies = Inr r"
  shows "py_iter r =
     ebind (py_iter movies) (\<lambda>ms. Inr (filter (passes_filters monitored status quality_profile_id) ms))"
proof -
  from assms obtain m1 m2 where
    s1: "(case monitored of None \<Rightarrow> Inr movies | Some b \<Rightarrow> keep_equal ''monitored'' (JBool b) movies) = Inr m1"
    and s2: "(case status of None \<Rightarrow> Inr m1
              | Some st \<Rightarrow> if st \<noteq> [] then keep_equal ''status'' (JStr st) m1 else Inr m1) = Inr m2"
    and s3: "(case quality_profile_id of None \<Rightarrow> Inr m2
              | Some q \<Rightarrow> if q \<noteq> 0 then keep_equal ''qualityProfileId'' (JInt q) m2 else Inr m2) = Inr r"
    by (auto simp: apply_filters_def ebind_Inr)
  have i1: "py_iter m1 = ebind (py_iter movies) (\<lambda>ms. Inr (filter (\<lambda>m.
      case monitored of None \<Rightarrow> True | Some b \<Rightarrow> matches ''monitored'' (JBool b) m) ms))"
    using s1 by (cases monitored; cases "py_iter movies") (auto simp: ebind_def dest!: keep_equal_Inr)
  have i2: "py_iter m2 = ebind (py_iter m1) (\<lambda>ms. Inr (filter (\<lambda>m.
      case status of None \<Rightarrow> True | Some st \<Rightarrow> st = [] \<or> matches ''status'' (JStr st) m) ms))"
    using s2 by (cases status; cases "py_iter m1") (auto simp: ebind_def dest!: keep_equal_Inr split: if_splits)
  have i3: "py_iter r = ebind (py_iter m2) (\<lambda>ms. Inr (filter (\<lambda>m.
      case quality_profile_id of None \<Rightarrow> True
      | Some q \<Rightarrow> q = 0 \<or> matches ''qualityProfileId'' (JInt q) m) ms))"
    using s3 by (cases quality_profile_id; cases "py_iter m2") (auto simp: ebind_def dest!: keep_equal_Inr split: if_splits)
  have "passes_filters monitored status quality_profile_id = (\<lambda>m.
      (case status of None \<Rightarrow> True | Some st \<Rightarrow> st = [] \<or> matches ''status'' (JStr st) m)
      \<and> (case monitored of None \<Rightarrow> True | Some b \<Rightarrow> matches ''monitored'' (JBool b) m)
      \<and> (case quality_profile_id of None \<Rightarrow> True
          | Some q \<Rightarrow> q = 0 \<or> matches ''qualityProfileId'' (JInt q) m))"
    by (rule ext) (auto simp: passes_filters_def)
  then show ?thesis
    unfolding i3 i2 i1
    by (cases "py_iter movies") (simp_all add: ebind_def conj_commute conj_left_commute)
qed

lemma get_movies_result_Inr:
  assumes "get_movies_result monitored status quality_profile_id movies = Inr r"
  shows "\<exists>ms out. py_iter movies = Inr ms
     \<and> emap library_movie_entry (filter (passes_filters monitored status quality_profile_id) ms) = Inr out
     \<and> r = JObj [(''success'', JBool True), (''total_count'', count_of out), (''movies'', JList out)]"
proof -
  from assms obtain movies' out where a: "apply_filters monitored status quality_profile_id movies = Inr movies'"
    and b: "for_each movies' library_movie_entry = Inr out"
    and r: "r = JObj [(''success'', JBool True), (''total_count'', count_of out), (''movies'', JList out)]"
    by (auto simp: get_movies_result_def ebind_Inr)
  from b obtain kept where k: "py_iter movies' = Inr kept" and e: "emap library_movie_entry kept = Inr out"
    by (auto simp: for_each_def ebind_Inr)
  from apply_filters_Inr [OF a] k obtain ms where "py_iter movies = Inr ms"
    and "kept = filter (passes_filters monitored status quality_profile_id) ms"
    by (cases "py_iter movies") (auto simp: ebind_def)
  with e r show ?thesis by blast
qed

lemma get_movies_run:
  "get_movies ev monitored status quality_profile_id =
     (case serve ev [] (get_rq ev ''movie'') of
        ClientError m \<Rightarrow> error_result (str_exn (client_failure m))
      | OtherError e \<Rightarrow> error_result (str_exn e)
      | Response s movies \<Rightarrow>
          (case get_movies_result monitored status quality_profile_id movies of
             Inl e \<Rightarrow> error_result (str_exn e)
           | Inr r \<Rightarrow> r),
      [(get_rq ev ''movie'', serve ev [] (get_rq ev ''movie''))])"
  by (simp add: get_movies_def get_movies_body_def mrr_get handle_one_exchange)

lemma library_released:
  "get_movies library (Some True) (Some ''released'') None =
     (JObj [(''success'', JBool True), (''total_count'', JInt 1), (''movies'', JList [dune_entry])],
      [(get_rq library ''movie'', Response 200 (JList [dune, arrival]))])"
  by code_simp

text \<open>
  C2, as the code has it. In every successful run of \<^verbatim>\<open>get_movies\<close> the returned list
  holds the entries of exactly the upstream movies that match every filter given, the
  filters conjoined, where an empty status string and a quality profile id 0 count as not
  given: each returned entry comes from an upstream movie that passes the filters, and an
  upstream movie that fails one is left out.
\<close>

theorem get_movies_filters:
  assumes run: "get_movies ev monitored status quality_profile_id = (r, tr)"
    and ok: "field r ''success'' = Some (JBool True)"
  shows "\<exists>s movies ms out.
       tr = [(get_rq ev ''movie'', Response s movies)]
     \<and> py_iter movies = Inr ms
     \<and> field r ''movies'' = Some (JList out)
     \<and> emap library_movie_entry (filter (passes_filters monitored status quality_profile_id) ms) = Inr out
     \<and> (\<forall>e \<in> set out. \<exists>m \<in> set ms.
           library_movie_entry m = Inr e \<and> passes_filters monitored status quality_profile_id m)"
proof (cases "serve ev [] (get_rq ev ''movie'')")
  case (ClientError m)
  with run ok show ?thesis by (auto simp: get_movies_run)
next
  case (OtherError e)
  with run ok show ?thesis by (auto simp: get_movies_run)
next
  case (Response s movies)
  show ?thesis
  proof (cases "get_movies_result monitored status quality_profile_id movies")
    case (Inl e)
    with run ok Response show ?thesis by (auto simp: get_movies_run)
  next
    case (Inr x)
    with run Response have r: "r = x" and tr: "tr = [(get_rq ev ''movie'', Response s movies)]"
      by (auto simp: get_movies_run)
    from get_movies_result_Inr [OF Inr] r obtain ms out where ms: "py_iter movies = Inr ms"
      and out: "emap library_movie_entry (filter (passes_filters monitored status quality_profile_id) ms) = Inr out"
      and shape: "r = JObj [(''success'', JBool True), (''total_count'', count_of out), (''movies'', JList out)]"
      by blast
    from emap_Inr_set [OF out] have "\<forall>e \<in> set out. \<exists>m \<in> set ms.
           library_movie_entry m = Inr e \<and> passes_filters monitored status quality_profile_id m"
      by auto
    with tr ms out shape show ?thesis
      by (auto simp: field_def)
  qed
qed

theorem get_movies_filters_witness:
  "get_movies library (Some True) (Some ''released'') None =
     (JObj [(''success'', JBool True), (''total_count'', JInt 1), (''movies'', JList [dune_entry])],
      [(get_rq library ''movie'', Response 200 (JList [dune, arrival]))])
   \<and> emap library_movie_entry
        (filter (passes_filters (Some True) (Some ''released'') None) [dune, arrival])
       = Inr [dune_entry]"
proof -
  let ?r = "JObj [(''success'', JBool True), (''total_count'', JInt 1), (''movies'', JList [dune_entry])]"
  have ok: "field ?r ''success'' = Some (JBool True)"
    by (simp add: field_def)
  from get_movies_filters [OF library_released ok] obtain s movies ms out where
    tr: "[(get_rq library ''movie'', Response 200 (JList [dune, arrival]))]
       = [(get_rq library ''movie'', Response s movies)]"
    and it: "py_iter movies = Inr ms" and f: "field ?r ''movies'' = Some (JList out)"
    and e: "emap library_movie_entry
           (filter (passes_filters (Some True) (Some ''released'') None) ms) = Inr out"
    by blast
  from tr it have ms: "ms = [dune, arrival]"
    by auto
  from f have out: "out = [dune_entry]"
    by (simp add: field_def)
  from e have "emap library_movie_entry
        (filter (passes_filters (Some True) (Some ''released'') None) [dune, arrival])
       = Inr [dune_entry]"
    unfolding ms out .
  with library_released show ?thesis by simp
qed

text \<open>
  C2, as it is stated, fails for the quality profile id 0: the filter is given, no movie of
  the library has the quality profile 0, and both movies are returned.
\<close>

theorem get_movies_zero_profile_counterexample:
  "fst (get_movies library None None (Some 0)) =
     JObj [(''success'', JBool True), (''total_count'', JInt 2),
           (''movies'', JList [dune_entry, arrival_entry])]
   \<and> library_movie_entry dune = Inr dune_entry
   \<and> \<not> matches_provided None None (Some 0) dune"
  by code_simp

section \<open>The movie collection\<close>

lemma get_movies_result_all:
  assumes "py_iter movies = Inr ms" and "emap library_movie_entry ms = Inr out"
  shows "get_movies_result None None None movies =
     Inr (JObj [(''success'', JBool True), (''total_count'', count_of out), (''movies'', JList out)])"
  using assms by (simp add: get_movies_result_def apply_filters_def for_each_def ebind_def)

lemma collection_text_success:
  "collection_text (JObj ((''success'', JBool True) # rest)) =
     Inr (json_dumps (Some 2) (JObj ((''success'', JBool True) # rest)))"
  by (simp add: collection_text_def ebind_def)

text \<open>
  C9. For every filter string other than "wanted", "monitored" and "unmonitored", the
  resource \<^verbatim>\<open>movie_collection\<close> does what it does for "all": it makes the one exchange
  of \<^verbatim>\<open>get_movies\<close> without filters, and when the upstream list is answered and every
  movie of it reshapes, the text returned is the JSON of the success result that holds the
  entry of every upstream movie. No filter string is rejected.
\<close>

theorem movie_collection_other_filter:
  assumes "filter' \<noteq> ''wanted''" and "filter' \<noteq> ''monitored''" and "filter' \<noteq> ''unmonitored''"
  shows "movie_collection ev filter' = movie_collection ev ''all''
   \<and> snd (movie_collection ev filter') = snd (get_movies ev None None None)
   \<and> (\<forall>s movies ms out. serve ev [] (get_rq ev ''movie'') = Response s movies
          \<and> py_iter movies = Inr ms \<and> emap library_movie_entry ms = Inr out
        \<longrightarrow> fst (movie_collection ev filter') =
              json_dumps (Some 2) (JObj [(''success'', JBool True),
                (''total_count'', JInt (int (length ms))), (''movies'', JList out)]))"
proof -
  have all: "movie_collection ev filter' =
     (case collection_text (fst (get_movies ev None None None)) of
        Inl e \<Rightarrow> json_dumps None (error_result (str_exn e))
      | Inr text \<Rightarrow> text, snd (get_movies ev None None None))"
    using assms by (simp add: movie_collection_def split: prod.splits)
  have "movie_collection ev ''all'' =
     (case collection_text (fst (get_movies ev None None None)) of
        Inl e \<Rightarrow> json_dumps None (error_result (str_exn e))
      | Inr text \<Rightarrow> text, snd (get_movies ev None None None))"
    by (simp add: movie_collection_def split: prod.splits)
  with all have same: "movie_collection ev filter' = movie_collection ev ''all''"
    by simp
  have full: "fst (movie_collection ev filter') =
              json_dumps (Some 2) (JObj [(''success'', JBool True),
                (''total_count'', JInt (int (length ms))), (''movies'', JList out)])"
    if "serve ev [] (get_rq ev ''movie'') = Response s movies"
      and "py_iter movies = Inr ms" and out: "emap library_movie_entry ms = Inr out"
    for s movies ms out
  proof -
    from emap_Inr [OF out] have "length out = length ms"
      by (simp add: list_all2_lengthD)
    with that show ?thesis
      by (simp add: all get_movies_run get_movies_result_all collection_text_success count_of_def)
  qed
  have second: "snd (movie_collection ev filter') = snd (get_movies ev None None None)"
    by (simp add: all)
  from full have "\<forall>s movies ms out. serve ev [] (get_rq ev ''movie'') = Response s movies
          \<and> py_iter movies = Inr ms \<and> emap library_movie_entry ms = Inr out
        \<longrightarrow> fst (movie_collection ev filter') =
              json_dumps (Some 2) (JObj [(''success'', JBool True),
                (''total_count'', JInt (int (length ms))), (''movies'', JList out)])"
    by blast
  with same second show ?thesis
    by (intro conjI)
qed

theorem movie_collection_other_filter_witness:
  "fst (movie_collection library ''bogus'') =
     json_dumps (Some 2) (JObj [(''success'', JBool True), (''total_count'', JInt 2),
       (''movies'', JList [dune_entry, arrival_entry])])"
proof -
  have up: "serve library [] (get_rq library ''movie'') = Response 200 (JList [dune, arrival])
      \<and> py_iter (JList [dune, arrival]) = Inr [dune, arrival]
      \<and> emap library_movie_entry [dune, arrival] = Inr [dune_entry, arrival_entry]"
    by code_simp
  have other: "''bogus'' \<noteq> ''wanted''" "''bogus'' \<noteq> ''monitored''" "''bogus'' \<noteq> ''unmonitored''"
    by simp_all
  from movie_collection_other_filter [OF other, of library] have
    "\<forall>s movies ms out. serve library [] (get_rq library ''movie'') = Response s movies
          \<and> py_iter movies = Inr ms \<and> emap library_movie_entry ms = Inr out
        \<longrightarrow> fst (movie_collection library ''bogus'') =
              json_dumps (Some 2) (JObj [(''success'', JBool True),
                (''total_count'', JInt (int (length ms))), (''movies'', JList out)])"
    by (elim conjE)
  from this [rule_format, OF up] show ?thesis
    by simp
qed

section \<open>Searching for movies\<close>

lemma overview_cut_Inr:
  assumes "overview_cut n m = Inr v"
  shows "\<exists>ov. py_get m ''overview'' (JStr []) = Inr ov \<and> overview_rule n ov v"
proof -
  from assms obtain ov l where ov: "py_get m ''overview'' (JStr []) = Inr ov"
    and l: "py_len ov = Inr l"
    and v: "(if n < l then ebind (py_slice_to ov n) (\<lambda>h. py_add_str h ''...'') else Inr ov) = Inr v"
    by (auto simp: overview_cut_def ebind_Inr split: if_splits)
  from l v have "overview_rule n ov v"
    by (cases ov) (auto simp: overview_rule_def ebind_def split: if_splits)
  with ov show ?thesis by blast
qed

lemma overview_rule_len:
  assumes "overview_rule n ov v"
  shows "\<exists>l. py_len v = Inr l \<and> l \<le> n + 3"
  using assms by (cases ov) (auto simp: overview_rule_def split: if_splits sum.splits)

lemma mk_fields_Inr_values:
  "mk_fields fs = Inr kvs \<Longrightarrow> (k, v) \<in> set fs \<Longrightarrow> \<exists>x. v = Inr x"
  by (induction fs arbitrary: kvs) (auto split: sum.splits)

lemma field_mk_obj_Inr:
  assumes "mk_obj fs = Inr d" and "map_of fs k = Some v"
  shows "\<exists>x. v = Inr x \<and> field d k = Some x"
proof -
  from assms(1) obtain kvs where kvs: "mk_fields fs = Inr kvs" and d: "d = JObj kvs"
    by (auto simp: mk_obj_def split: sum.splits)
  from assms(2) have "(k, v) \<in> set fs" by (rule map_of_SomeD)
  with kvs obtain x where "v = Inr x" by (blast dest: mk_fields_Inr_values)
  with field_mk_obj [OF assms(1), of k] assms(2) show ?thesis by simp
qed

lemma search_movie_entry_overview:
  assumes "search_movie_entry m = Inr e"
  shows "\<exists>ov v l. py_get m ''overview'' (JStr []) = Inr ov \<and> field e ''overview'' = Some v
     \<and> overview_rule 200 ov v \<and> py_len v = Inr l \<and> l \<le> 203"
proof -
  from assms [unfolded search_movie_entry_def] have
    "\<exists>x. overview_cut 200 m = Inr x \<and> field e ''overview'' = Some x"
    by (rule field_mk_obj_Inr) simp
  then obtain v where cut: "overview_cut 200 m = Inr v" and f: "field e ''overview'' = Some v"
    by blast
  from overview_cut_Inr [OF cut] obtain ov where ov: "py_get m ''overview'' (JStr []) = Inr ov"
    and rule: "overview_rule 200 ov v" by blast
  from overview_rule_len [OF rule] obtain l where "py_len v = Inr l" "l \<le> 203" by auto
  with ov f rule show ?thesis by blast
qed

lemma slice_iter_length:
  "py_slice_to x n = Inr page \<Longrightarrow> py_iter page = Inr ms \<Longrightarrow> length ms \<le> n"
  by (cases x) auto

lemma search_movies_result_Inr:
  assumes "search_movies_result results = Inr r"
  shows "\<exists>page ms out. py_slice_to results 10 = Inr page \<and> py_iter page = Inr ms
     \<and> emap search_movie_entry ms = Inr out
     \<and> r = JObj [(''success'', JBool True), (''results_count'', count_of out), (''movies'', JList out)]"
  using assms by (auto simp: search_movies_result_def for_each_def ebind_Inr)

lemma search_movies_run:
  "search_movies ev query year =
     (case serve ev [] (get_rq ev (''movie/lookup?term='' @ search_term query year)) of
        ClientError m \<Rightarrow> error_result (str_exn (client_failure m))
      | OtherError e \<Rightarrow> error_result (str_exn e)
      | Response s results \<Rightarrow>
          (case search_movies_result results of
             Inl e \<Rightarrow> error_result (str_exn e)
           | Inr r \<Rightarrow> r),
      [(get_rq ev (''movie/lookup?term='' @ search_term query year),
        serve ev [] (get_rq ev (''movie/lookup?term='' @ search_term query year)))])"
  by (simp add: search_movies_def search_movies_body_def mrr_get handle_one_exchange)

text \<open>
  C4. In every successful run of \<^verbatim>\<open>search_movies\<close> the returned list of movies has at
  most 10 entries, one for each of the first ten upstream results, and the overview of each
  entry has at most 203 characters: it is the first 200 characters of the source overview
  followed by three dots when the source overview is longer than 200 characters, and the
  source overview unchanged otherwise.
\<close>

theorem search_movies_capped:
  assumes run: "search_movies ev query year = (r, tr)"
    and ok: "field r ''success'' = Some (JBool True)"
  shows "\<exists>s results page ms out.
       tr = [(get_rq ev (''movie/lookup?term='' @ search_term query year), Response s results)]
     \<and> py_slice_to results 10 = Inr page \<and> py_iter page = Inr ms
     \<and> field r ''movies'' = Some (JList out)
     \<and> length out \<le> 10
     \<and> list_all2 (\<lambda>m e. search_movie_entry m = Inr e
          \<and> (\<exists>ov v l. py_get m ''overview'' (JStr []) = Inr ov
                \<and> field e ''overview'' = Some v
                \<and> overview_rule 200 ov v
                \<and> py_len v = Inr l \<and> l \<le> 203)) ms out"
proof (cases "serve ev [] (get_rq ev (''movie/lookup?term='' @ search_term query year))")
  case (ClientError m)
  with run ok show ?thesis by (auto simp: search_movies_run)
next
  case (OtherError e)
  with run ok show ?thesis by (auto simp: search_movies_run)
next
  case (Response s results)
  show ?thesis
  proof (cases "search_movies_result results")
    case (Inl e)
    with run ok Response show ?thesis by (auto simp: search_movies_run)
  next
    case (Inr x)
    with run Response have r: "r = x"
      and tr: "tr = [(get_rq ev (''movie/lookup?term='' @ search_term query year), Response s results)]"
      by (auto simp: search_movies_run)
    from search_movies_result_Inr [OF Inr] r obtain page ms out where
      page: "py_slice_to results 10 = Inr page" and ms: "py_iter page = Inr ms"
      and out: "emap search_movie_entry ms = Inr out"
      and shape: "r = JObj [(''success'', JBool True), (''results_count'', count_of out), (''movies'', JList out)]"
      by blast
    from emap_Inr [OF out] have all: "list_all2 (\<lambda>m e. search_movie_entry m = Inr e) ms out" .
    then have len: "length out = length ms"
      by (simp add: list_all2_lengthD)
    from all have "list_all2 (\<lambda>m e. search_movie_entry m = Inr e
          \<and> (\<exists>ov v l. py_get m ''overview'' (JStr []) = Inr ov
                \<and> field e ''overview'' = Some v
                \<and> overview_rule 200 ov v
                \<and> py_len v = Inr l \<and> l \<le> 203)) ms out"
      by (rule list_all2_mono) (use search_movie_entry_overview in blast)
    moreover from slice_iter_length [OF page ms] len have "length out \<le> 10"
      by simp
    moreover from shape have "field r ''movies'' = Some (JList out)"
      by (simp add: field_def)
    ultimately show ?thesis
      using tr page ms by blast
  qed
qed

theorem search_movies_capped_witness:
  "field (fst (search_movies cinema ''Inception'' None)) ''success'' = Some (JBool True)
   \<and> field (fst (search_movies cinema ''Inception'' None)) ''results_count'' = Some (JInt 10)
   \<and> (\<exists>out. field (fst (search_movies cinema ''Inception'' None)) ''movies'' = Some (JList out)
         \<and> length out \<le> 10)"
proof -
  let ?run = "search_movies cinema ''Inception'' None"
  have run: "?run = (fst ?run, snd ?run)"
    by simp
  have ok: "field (fst ?run) ''success'' = Some (JBool True)"
    and n: "field (fst ?run) ''results_count'' = Some (JInt 10)"
    by code_simp+
  from search_movies_capped [OF run ok] obtain out where
    "field (fst ?run) ''movies'' = Some (JList out)" and "length out \<le> 10"
    by blast
  with ok n show ?thesis
    by blast
qed

section \<open>Searching for releases\<close>

lemma py_get_JInt:
  "py_get x k (JInt 0) = Inr (JInt n) \<Longrightarrow> number_or_zero (field x k) = n"
  by (cases x) (auto simp: field_def number_or_zero_def split: option.splits)

lemma py_get_sub_object:
  "py_get x k (JObj []) = Inr y \<Longrightarrow> sub_object x k = y"
  by (cases x) (auto simp: field_def sub_object_def split: option.splits)

lemma release_key_weight:
  assumes "release_key sort_by x = Inr (JInt n)"
  shows "sort_weight sort_by x = n"
proof -
  consider "sort_by = ''seeders''" | "sort_by = ''size''"
    | "sort_by \<noteq> ''seeders''" "sort_by \<noteq> ''size''" by blast
  then show ?thesis
  proof cases
    case 1
    with assms show ?thesis
      by (simp add: release_key_def sort_weight_def seeders_key_def py_get_JInt)
  next
    case 2
    with assms show ?thesis
      by (simp add: release_key_def sort_weight_def size_key_def py_get_JInt)
  next
    case 3
    with assms obtain q q' where "py_get x ''quality'' (JObj []) = Inr q"
      and "py_get q ''quality'' (JObj []) = Inr q'" and "py_get q' ''id'' (JInt 0) = Inr (JInt n)"
      by (auto simp: release_key_def quality_key_def quality_get_def ebind_Inr)
    with 3 show ?thesis
      by (simp add: sort_weight_def py_get_sub_object py_get_JInt)
  qed
qed

lemma insort_lt_int:
  assumes "\<exists>n. fst x = JInt n" and "\<forall>p \<in> set ys. \<exists>n. fst p = JInt n"
    and "sorted_wrt (\<lambda>a b. int_key a \<le> int_key b) ys"
  shows "\<exists>zs. insort_lt x ys = Inr zs \<and> mset zs = add_mset x (mset ys)
     \<and> sorted_wrt (\<lambda>a b. int_key a \<le> int_key b) zs"
  using assms
proof (induction ys)
  case Nil
  then show ?case by simp
next
  case (Cons y ys)
  from Cons.prems obtain n m where n: "fst x = JInt n" and m: "fst y = JInt m"
    by auto
  show ?case
  proof (cases "n < m")
    case True
    with n m Cons.prems show ?thesis
      by (auto simp: int_key_def)
  next
    case False
    from Cons.prems have "\<exists>zs. insort_lt x ys = Inr zs \<and> mset zs = add_mset x (mset ys)
       \<and> sorted_wrt (\<lambda>a b. int_key a \<le> int_key b) zs"
      by (intro Cons.IH) auto
    then obtain zs where zs: "insort_lt x ys = Inr zs" and ms: "mset zs = add_mset x (mset ys)"
      and so: "sorted_wrt (\<lambda>a b. int_key a \<le> int_key b) zs" by blast
    from ms have "set zs = insert x (set ys)"
      by (metis set_mset_add_mset_insert set_mset_mset)
    with Cons.prems False n m so have "sorted_wrt (\<lambda>a b. int_key a \<le> int_key b) (y # zs)"
      by (auto simp: int_key_def)
    with False n m zs ms show ?thesis
      by simp
  qed
qed

lemma sort_asc_int:
  assumes "\<forall>p \<in> set acc \<union> set xs. \<exists>n. fst p = JInt n"
    and "sorted_wrt (\<lambda>a b. int_key a \<le> int_key b) acc"
  shows "\<exists>zs. sort_asc acc xs = Inr zs \<and> mset zs = mset acc + mset xs
     \<and> sorted_wrt (\<lambda>a b. int_key a \<le> int_key b) zs"
  using assms
proof (induction xs arbitrary: acc)
  case Nil
  then show ?case by simp
next
  case (Cons x xs)
  from Cons.prems have "\<exists>zs. insort_lt x acc = Inr zs \<and> mset zs = add_mset x (mset acc)
     \<and> sorted_wrt (\<lambda>a b. int_key a \<le> int_key b) zs"
    by (intro insort_lt_int) auto
  then obtain acc' where a: "insort_lt x acc = Inr acc'" and m: "mset acc' = add_mset x (mset acc)"
    and s: "sorted_wrt (\<lambda>a b. int_key a \<le> int_key b) acc'" by blast
  from m have "set acc' = insert x (set acc)"
    by (metis set_mset_add_mset_insert set_mset_mset)
  with Cons.prems have "\<forall>p \<in> set acc' \<union> set xs. \<exists>n. fst p = JInt n"
    by auto
  from Cons.IH [OF this s] a m show ?case
    by auto
qed

lemma emap_with_key:
  assumes "\<forall>x \<in> set xs. key x = Inr (JInt (w x))"
  shows "emap (with_key key) xs = Inr (map (\<lambda>x. (JInt (w x), x)) xs)"
  using assms by (induction xs) (simp_all add: with_key_def)

lemma py_sort_reverse_int:
  assumes "\<forall>x \<in> set xs. key x = Inr (JInt (w x))"
  shows "\<exists>ys. py_sort_reverse key (JList xs) = Inr (JList ys) \<and> mset ys = mset xs
     \<and> sorted_wrt (\<lambda>a b. w b \<le> w a) ys"
proof -
  let ?kxs = "map (\<lambda>x. (JInt (w x), x)) xs"
  have "\<exists>zs. sort_asc [] (rev ?kxs) = Inr zs \<and> mset zs = mset [] + mset (rev ?kxs)
     \<and> sorted_wrt (\<lambda>a b. int_key a \<le> int_key b) zs"
    by (rule sort_asc_int) auto
  then obtain zs where zs: "sort_asc [] (rev ?kxs) = Inr zs" and m: "mset zs = mset ?kxs"
    and s: "sorted_wrt (\<lambda>a b. int_key a \<le> int_key b) zs" by auto
  from m have "set zs = set ?kxs"
    by (metis set_mset_mset)
  then have keys: "\<forall>p \<in> set zs. int_key p = w (snd p)"
    by (auto simp: int_key_def)
  have "sorted_wrt (\<lambda>a b. w (snd a) \<le> w (snd b)) zs"
    by (rule sorted_wrt_mono_rel [OF _ s]) (simp add: keys)
  then have "sorted_wrt (\<lambda>a b. w b \<le> w a) (rev (map snd zs))"
    by (simp add: sorted_wrt_rev sorted_wrt_map)
  moreover from m have "mset (rev (map snd zs)) = mset xs"
    by (metis (no_types, lifting) mset_map mset_rev map_map comp_def snd_conv map_idI)
  moreover have "py_sort_reverse key (JList xs) = Inr (JList (rev (map snd zs)))"
    using zs by (simp add: emap_with_key [OF assms] ebind_def)
  ultimately show ?thesis by blast
qed

lemma search_movie_releases_run:
  "search_movie_releases ev movie_id sort_by =
     (case serve ev [] (get_rq ev (''release?movieId='' @ str_int movie_id)) of
        ClientError m \<Rightarrow> error_result (str_exn (client_failure m))
      | OtherError e \<Rightarrow> error_result (str_exn e)
      | Response s releases \<Rightarrow>
          (case search_movie_releases_result sort_by releases of
             Inl e \<Rightarrow> error_result (str_exn e)
           | Inr r \<Rightarrow> r),
      [(get_rq ev (''release?movieId='' @ str_int movie_id),
        serve ev [] (get_rq ev (''release?movieId='' @ str_int movie_id)))])"
  by (simp add: search_movie_releases_def search_movie_releases_body_def mrr_get handle_one_exchange)

lemma sort_releases_key:
  assumes "sort_by = ''seeders'' \<or> sort_by = ''size'' \<or> sort_by = ''quality''"
  shows "sort_releases (Some sort_by) releases = py_sort_reverse (release_key sort_by) releases"
  using assms by (auto simp: sort_releases_def release_key_def)

text \<open>
  C5. For \<^verbatim>\<open>sort_by\<close> "seeders", "size" or "quality", an upstream list of releases whose
  sort keys are integers or missing, and a successful run of \<^verbatim>\<open>search_movie_releases\<close>:
  the returned list holds the entries of the first 20 releases of the upstream list
  rearranged in descending order of the seeder count (of the size, of the quality id), a
  missing number counted as 0; so it is sorted in that order and has at most 20 entries.
\<close>

theorem search_movie_releases_sorted:
  assumes sb: "sort_by = ''seeders'' \<or> sort_by = ''size'' \<or> sort_by = ''quality''"
    and run: "search_movie_releases ev movie_id (Some sort_by) = (r, tr)"
    and ok: "field r ''success'' = Some (JBool True)"
    and up: "serve ev [] (get_rq ev (''release?movieId='' @ str_int movie_id))
               = Response s (JList releases)"
    and typed: "\<forall>x \<in> set releases. \<exists>n. release_key sort_by x = Inr (JInt n)"
  shows "\<exists>ordered out.
       mset ordered = mset releases
     \<and> sorted_wrt (\<lambda>a b. sort_weight sort_by b \<le> sort_weight sort_by a) ordered
     \<and> emap release_entry (take 20 ordered) = Inr out
     \<and> field r ''releases'' = Some (JList out)
     \<and> length out \<le> 20"
proof -
  from typed have "\<forall>x \<in> set releases. release_key sort_by x = Inr (JInt (sort_weight sort_by x))"
    by (metis release_key_weight)
  from py_sort_reverse_int [OF this] obtain ordered where
    srt: "py_sort_reverse (release_key sort_by) (JList releases) = Inr (JList ordered)"
    and perm: "mset ordered = mset releases"
    and desc: "sorted_wrt (\<lambda>a b. sort_weight sort_by b \<le> sort_weight sort_by a) ordered"
    by blast
  have res: "search_movie_releases_result (Some sort_by) (JList releases) =
     (case emap release_entry (take 20 ordered) of
        Inl e \<Rightarrow> Inl e
      | Inr out \<Rightarrow> Inr (JObj [(''success'', JBool True), (''releases_count'', count_of out),
                               (''releases'', JList out)]))"
  proof -
    have "sort_releases (Some sort_by) (JList releases) = Inr (JList ordered)"
      by (simp only: sort_releases_key [OF sb] srt)
    then show ?thesis
      by (simp add: search_movie_releases_result_def for_each_def ebind_def)
  qed
  show ?thesis
  proof (cases "emap release_entry (take 20 ordered)")
    case (Inl e)
    with run ok up res show ?thesis
      by (auto simp: search_movie_releases_run)
  next
    case (Inr out)
    with run up res have "field r ''releases'' = Some (JList out)"
      by (auto simp: search_movie_releases_run field_def)
    moreover from emap_Inr [OF Inr] have "length out \<le> 20"
      by (auto dest: list_all2_lengthD)
    ultimately show ?thesis
      using perm desc Inr by blast
  qed
qed

theorem search_movie_releases_sorted_witness:
  "field (fst (search_movie_releases torrents 5 (Some ''seeders''))) ''success'' = Some (JBool True)
   \<and> (\<exists>ordered out.
         mset ordered = mset [JObj [(''guid'', JStr ''a''), (''seeders'', JInt 3)],
                              JObj [(''guid'', JStr ''b'')],
                              JObj [(''guid'', JStr ''c''), (''seeders'', JInt 5)]]
       \<and> sorted_wrt (\<lambda>a b. sort_weight ''seeders'' b \<le> sort_weight ''seeders'' a) ordered
       \<and> emap release_entry (take 20 ordered) = Inr out
       \<and> field (fst (search_movie_releases torrents 5 (Some ''seeders''))) ''releases''
           = Some (JList out)
       \<and> length out \<le> 20)
   \<and> (case field (fst (search_movie_releases torrents 5 (Some ''seeders''))) ''releases'' of
         Some (JList out) \<Rightarrow> map (\<lambda>e. field e ''guid'') out
       | _ \<Rightarrow> [])
       = [Some (JStr ''c''), Some (JStr ''a''), Some (JStr ''b'')]"
proof -
  let ?run = "search_movie_releases torrents 5 (Some ''seeders'')"
  let ?releases = "[JObj [(''guid'', JStr ''a''), (''seeders'', JInt 3)],
                    JObj [(''guid'', JStr ''b'')],
                    JObj [(''guid'', JStr ''c''), (''seeders'', JInt 5)]]"
  have sb: "''seeders'' = ''seeders'' \<or> ''seeders'' = ''size'' \<or> ''seeders'' = ''quality''"
    by simp
  have run: "?run = (fst ?run, snd ?run)"
    by simp
  have ok: "field (fst ?run) ''success'' = Some (JBool True)"
    by code_simp
  have up: "serve torrents [] (get_rq torrents (''release?movieId='' @ str_int 5))
      = Response 200 (JList ?releases)"
    by code_simp
  have typed: "\<forall>x \<in> set ?releases. \<exists>n. release_key ''seeders'' x = Inr (JInt n)"
    by (simp add: release_key_def seeders_key_def)
  have order: "(case field (fst ?run) ''releases'' of
         Some (JList out) \<Rightarrow> map (\<lambda>e. field e ''guid'') out
       | _ \<Rightarrow> [])
       = [Some (JStr ''c''), Some (JStr ''a''), Some (JStr ''b'')]"
    by code_simp
  from search_movie_releases_sorted [OF sb run ok up typed] ok order show ?thesis
    by (intro conjI)
qed

end
